theory Spec2Isabelle
  imports Complex_Main "HOL-Library.Multiset"
begin

section \<open>Python strings\<close>

text \<open>
  A Python \<open>str\<close> is modelled as a \<open>string\<close>, a list of characters; a character is a
  code point below 256, so the model covers text in that range. \<open>isspace\<close> is
  \<open>str.isspace\<close> there (which is also what \<open>\s\<close> matches), \<open>is_word\<close> is what \<open>\w\<close>
  matches there. Python integers are \<open>int\<close>; Python floats are modelled by the rational
  numbers they denote.
\<close>

definition isspace :: "char \<Rightarrow> bool" where
  "isspace c = (c \<in> set [CHR 0x09, CHR 0x0A, CHR 0x0B, CHR 0x0C, CHR 0x0D,
                          CHR 0x1C, CHR 0x1D, CHR 0x1E, CHR 0x1F, CHR 0x20,
                          CHR 0x85, CHR 0xA0])"

definition is_word :: "char \<Rightarrow> bool" where
  "is_word c = (let n = of_char c :: nat in
     (48 \<le> n \<and> n \<le> 57) \<or> (65 \<le> n \<and> n \<le> 90) \<or> n = 95 \<or> (97 \<le> n \<and> n \<le> 122)
     \<or> n = 170 \<or> (178 \<le> n \<and> n \<le> 179) \<or> n = 181 \<or> (185 \<le> n \<and> n \<le> 186)
     \<or> (188 \<le> n \<and> n \<le> 190) \<or> (192 \<le> n \<and> n \<le> 214) \<or> (216 \<le> n \<and> n \<le> 246)
     \<or> (248 \<le> n \<and> n \<le> 255))"

text \<open>\<open>s.strip()\<close>\<close>

definition strip :: "string \<Rightarrow> string" where
  "strip s = rev (dropWhile isspace (rev (dropWhile isspace s)))"

text \<open>\<open>s.split('\n')\<close>: always at least one line.\<close>

fun split_lines :: "string \<Rightarrow> string list" where
  "split_lines [] = [[]]"
| "split_lines (c # cs) =
     (if c = CHR 0x0A then [] # split_lines cs
      else (case split_lines cs of [] \<Rightarrow> [[c]] | l # ls \<Rightarrow> (c # l) # ls))"

text \<open>\<open>s.startswith(p)\<close>\<close>

definition startswith :: "string \<Rightarrow> string \<Rightarrow> bool" where
  "startswith s p = (take (length p) s = p)"

text \<open>\<open>sub in s\<close>\<close>

fun str_contains :: "string \<Rightarrow> string \<Rightarrow> bool" where
  "str_contains sub [] = (sub = [])"
| "str_contains sub (c # cs) = (startswith (c # cs) sub \<or> str_contains sub cs)"

text \<open>\<open>s.find(ch, start)\<close> for a single character; \<open>None\<close> stands for -1.\<close>

fun find_from :: "char \<Rightarrow> string \<Rightarrow> nat \<Rightarrow> nat option" where
  "find_from ch [] i = None"
| "find_from ch (c # cs) i = (if c = ch then Some i else find_from ch cs (i + 1))"

definition str_find :: "string \<Rightarrow> char \<Rightarrow> nat \<Rightarrow> nat option" where
  "str_find s ch start = find_from ch (drop start s) start"

text \<open>\<open>s[i:j]\<close> for non-negative indices.\<close>

definition slice :: "string \<Rightarrow> nat \<Rightarrow> nat \<Rightarrow> string" where
  "slice s i j = take (j - i) (drop i s)"

text \<open>\<open>s.count(sub)\<close>: non-overlapping occurrences, scanning from the left. The counter
  \<open>skip\<close> holds how many characters of the last occurrence are still to be passed.\<close>

fun count_from :: "string \<Rightarrow> string \<Rightarrow> nat \<Rightarrow> nat" where
  "count_from sub [] skip = 0"
| "count_from sub (c # cs) skip =
     (if skip > 0 then count_from sub cs (skip - 1)
      else if startswith (c # cs) sub then 1 + count_from sub cs (length sub - 1)
      else count_from sub cs 0)"

definition str_count :: "string \<Rightarrow> string \<Rightarrow> nat" where
  "str_count s sub = count_from sub s 0"


section \<open>Regular expressions\<close>

text \<open>
  The fragment of Python's \<open>re\<close> that the patterns of the repository use: literal text,
  character classes, greedy \<open>*\<close> and \<open>+\<close> over a character class, optional groups,
  alternation, sequence and one capturing group whose text is read. The matcher is a
  backtracking matcher with the priorities of \<open>re\<close> (first alternative first, greedy
  repetition longest first); the continuation receives the rest of the input and the
  text of the capturing group.
\<close>

datatype rx =
    Lit string
  | Cls "char \<Rightarrow> bool"
  | Star "char \<Rightarrow> bool"
  | Plus "char \<Rightarrow> bool"
  | Opt rx
  | Alt rx rx
  | Seq rx rx
  | Grp rx

fun rx_star :: "(char \<Rightarrow> bool) \<Rightarrow> string \<Rightarrow> (string \<Rightarrow> 'a option) \<Rightarrow> 'a option" where
  "rx_star c [] k = k []"
| "rx_star c (x # xs) k =
     (if c x then (case rx_star c xs k of Some r \<Rightarrow> Some r | None \<Rightarrow> k (x # xs))
      else k (x # xs))"

fun rx_match :: "rx \<Rightarrow> string \<Rightarrow> string option \<Rightarrow>
    (string \<Rightarrow> string option \<Rightarrow> 'a option) \<Rightarrow> 'a option" where
  "rx_match (Lit w) s g k = (if startswith s w then k (drop (length w) s) g else None)"
| "rx_match (Cls c) s g k = (case s of [] \<Rightarrow> None | x # xs \<Rightarrow> if c x then k xs g else None)"
| "rx_match (Star c) s g k = rx_star c s (\<lambda>r. k r g)"
| "rx_match (Plus c) s g k =
     (case s of [] \<Rightarrow> None | x # xs \<Rightarrow> if c x then rx_star c xs (\<lambda>r. k r g) else None)"
| "rx_match (Opt r) s g k =
     (case rx_match r s g k of Some a \<Rightarrow> Some a | None \<Rightarrow> k s g)"
| "rx_match (Alt a b) s g k =
     (case rx_match a s g k of Some x \<Rightarrow> Some x | None \<Rightarrow> rx_match b s g k)"
| "rx_match (Seq a b) s g k = rx_match a s g (\<lambda>s' g'. rx_match b s' g' k)"
| "rx_match (Grp r) s g k =
     rx_match r s g (\<lambda>s' g'. k s' (Some (take (length s - length s') s)))"

text \<open>A match at the head of \<open>s\<close>: its length and the text of the capturing group.\<close>

definition rx_match_here :: "rx \<Rightarrow> string \<Rightarrow> (nat \<times> string option) option" where
  "rx_match_here p s = rx_match p s None (\<lambda>r g. Some (length s - length r, g))"

text \<open>\<open>re.search(p, s)\<close>: the leftmost match, as (start, end, group).\<close>

fun rx_search_from :: "rx \<Rightarrow> string \<Rightarrow> nat \<Rightarrow> (nat \<times> nat \<times> string option) option" where
  "rx_search_from p [] i =
     (case rx_match_here p [] of None \<Rightarrow> None | Some (n, g) \<Rightarrow> Some (i, i + n, g))"
| "rx_search_from p (c # cs) i =
     (case rx_match_here p (c # cs) of
        None \<Rightarrow> rx_search_from p cs (i + 1)
      | Some (n, g) \<Rightarrow> Some (i, i + n, g))"

definition re_search :: "rx \<Rightarrow> string \<Rightarrow> (nat \<times> nat \<times> string option) option" where
  "re_search p s = rx_search_from p s 0"

text \<open>\<open>re.finditer(p, s)\<close>: the successive non-overlapping matches, leftmost first.
  \<open>skip\<close> counts the characters of the previous match that are still to be passed.\<close>

fun rx_finditer_from :: "rx \<Rightarrow> string \<Rightarrow> nat \<Rightarrow> nat \<Rightarrow> (nat \<times> nat \<times> string option) list" where
  "rx_finditer_from p [] i skip = []"
| "rx_finditer_from p (c # cs) i skip =
     (if skip > 0 then rx_finditer_from p cs (i + 1) (skip - 1)
      else (case rx_match_here p (c # cs) of
              None \<Rightarrow> rx_finditer_from p cs (i + 1) 0
            | Some (n, g) \<Rightarrow> (i, i + n, g) # rx_finditer_from p cs (i + 1) (n - 1)))"

definition re_finditer :: "rx \<Rightarrow> string \<Rightarrow> (nat \<times> nat \<times> string option) list" where
  "re_finditer p s = rx_finditer_from p s 0 0"

text \<open>A sequence of patterns.\<close>

fun rx_seq :: "rx list \<Rightarrow> rx" where
  "rx_seq [] = Lit []"
| "rx_seq [r] = r"
| "rx_seq (r # rs) = Seq r (rx_seq rs)"

definition ws1 :: rx where "ws1 = Plus isspace"   \<comment> \<open>\<open>\s+\<close>\<close>
definition ws0 :: rx where "ws0 = Star isspace"   \<comment> \<open>\<open>\s*\<close>\<close>


section \<open>Program slicer\<close>

subsection \<open>Lines of code\<close>

text \<open>
  \<open>_count_loc\<close>: the loop over the lines, with the flag \<open>in_multiline_comment\<close> and the
  counter \<open>loc\<close> passed along.
\<close>

fun count_loc_lines :: "string list \<Rightarrow> bool \<Rightarrow> int \<Rightarrow> int" where
  "count_loc_lines [] in_multiline_comment loc = loc"
| "count_loc_lines (line # lines) in_multiline_comment loc =
     (let stripped = strip line;
          in_multiline_comment =
            (if str_contains ''/*'' stripped then True else in_multiline_comment)
      in if str_contains ''*/'' stripped then count_loc_lines lines False loc
         else if in_multiline_comment then count_loc_lines lines in_multiline_comment loc
         else if stripped \<noteq> [] \<and> \<not> startswith stripped ''//''
              then count_loc_lines lines in_multiline_comment (loc + 1)
         else count_loc_lines lines in_multiline_comment loc)"

definition count_loc :: "string \<Rightarrow> int" where
  "count_loc code = count_loc_lines (split_lines code) False 0"

subsection \<open>Block extraction\<close>

text \<open>
  The loop of \<open>_extract_block\<close> over the characters from the opening brace on; \<open>i\<close> is the
  index of the character at the head of the remaining text, \<open>cnt\<close> is the counter
  \<open>count\<close> of the source. The result is the index at
  which the loop returns, \<open>None\<close> when the loop runs to the end of the text.
\<close>

fun scan_block :: "int \<Rightarrow> bool \<Rightarrow> bool \<Rightarrow> bool \<Rightarrow> string \<Rightarrow> nat \<Rightarrow> nat option" where
  "scan_block cnt in_string in_char escape [] i = None"
| "scan_block cnt in_string in_char escape (ch # rest) i =
     (if escape then scan_block cnt in_string in_char False rest (i + 1)
      else if ch = CHR 0x5C then scan_block cnt in_string in_char True rest (i + 1)
      else
        (let in_string' = (if ch = CHR 0x22 \<and> \<not> in_char then \<not> in_string else in_string);
             in_char' = (if \<not> (ch = CHR 0x22 \<and> \<not> in_char) \<and> ch = CHR 0x27 \<and> \<not> in_string
                         then \<not> in_char else in_char)
         in if \<not> in_string' \<and> \<not> in_char' then
              (if ch = CHR ''{'' then scan_block (cnt + 1) in_string' in_char' False rest (i + 1)
               else if ch = CHR ''}'' then
                 (if cnt - 1 = 0 then Some i
                  else scan_block (cnt - 1) in_string' in_char' False rest (i + 1))
               else scan_block cnt in_string' in_char' False rest (i + 1))
            else scan_block cnt in_string' in_char' False rest (i + 1)))"

definition extract_block :: "string \<Rightarrow> nat \<Rightarrow> string option" where
  "extract_block source_code start_pos =
     (case str_find source_code (CHR ''{'') start_pos of
        None \<Rightarrow> None
      | Some brace_pos \<Rightarrow>
          (case scan_block 0 False False False (drop brace_pos source_code) brace_pos of
             None \<Rightarrow> None
           | Some i \<Rightarrow> Some (slice source_code start_pos (i + 1))))"

subsection \<open>Method metrics\<close>

text \<open>\<open>re.sub(r'/\*.*?\*/', '', code, flags=re.S)\<close>: every \<open>/*\<close> that has a \<open>*/\<close> after it
  is removed with the text up to the first such \<open>*/\<close>.\<close>

fun find_sub :: "string \<Rightarrow> string \<Rightarrow> nat \<Rightarrow> nat option" where
  "find_sub sub [] i = (if sub = [] then Some i else None)"
| "find_sub sub (c # cs) i = (if startswith (c # cs) sub then Some i else find_sub sub cs (i + 1))"

fun strip_block_comments :: "string \<Rightarrow> nat \<Rightarrow> string" where
  "strip_block_comments [] skip = []"
| "strip_block_comments (c # cs) skip =
     (if skip > 0 then strip_block_comments cs (skip - 1)
      else if startswith (c # cs) ''/*'' then
        (case find_sub ''*/'' (drop 2 (c # cs)) 0 of
           None \<Rightarrow> c # strip_block_comments cs 0
         | Some j \<Rightarrow> strip_block_comments cs (j + 3))
      else c # strip_block_comments cs 0)"

text \<open>\<open>re.sub(r'//.*', '', code)\<close>: from \<open>//\<close> to the end of the line.\<close>

fun strip_line_comments :: "string \<Rightarrow> bool \<Rightarrow> string" where
  "strip_line_comments [] in_comment = []"
| "strip_line_comments (c # cs) in_comment =
     (if in_comment then
        (if c = CHR 0x0A then c # strip_line_comments cs False else strip_line_comments cs True)
      else if startswith (c # cs) ''//'' then strip_line_comments cs True
      else c # strip_line_comments cs False)"

definition strip_comments :: "string \<Rightarrow> string" where
  "strip_comments code = strip_line_comments (strip_block_comments code 0) False"

text \<open>\<open>len(re.findall(r'\bkw\b', code))\<close> for a keyword made of word characters;
  \<open>prev_word\<close> says whether the character before the head is a word character.\<close>

fun count_keyword :: "string \<Rightarrow> string \<Rightarrow> bool \<Rightarrow> nat \<Rightarrow> nat" where
  "count_keyword kw [] prev_word skip = 0"
| "count_keyword kw (c # cs) prev_word skip =
     (if skip > 0 then count_keyword kw cs (is_word c) (skip - 1)
      else if \<not> prev_word \<and> startswith (c # cs) kw \<and>
              (case drop (length kw) (c # cs) of [] \<Rightarrow> True | x # _ \<Rightarrow> \<not> is_word x)
           then 1 + count_keyword kw cs (is_word c) (length kw - 1)
      else count_keyword kw cs (is_word c) 0)"

definition estimate_complexity :: "string \<Rightarrow> int" where
  "estimate_complexity code =
     1 + int (sum_list (map (\<lambda>kw. count_keyword kw code False 0)
                            [''if'', ''else'', ''for'', ''while'', ''case'', ''catch'']))
       + int (sum_list (map (str_count code) [''&&'', ''||'', ''?'']))"

definition count_external_calls :: "string \<Rightarrow> int" where
  "count_external_calls code =
     int (length (re_finditer (rx_seq [Plus is_word, Lit ''.'', Plus is_word, Lit ''(''])
                              (strip_comments code)))"

subsection \<open>Units\<close>

text \<open>
  A metrics dictionary is an association list from the key to a number (a Python
  \<open>bool\<close> is the integer 0 or 1); \<open>metrics.get(k, d)\<close> is \<open>metrics_get\<close>.
\<close>

type_synonym metrics = "(string \<times> rat) list"

definition metrics_get :: "metrics \<Rightarrow> string \<Rightarrow> rat \<Rightarrow> rat" where
  "metrics_get m k d = (case map_of m k of None \<Rightarrow> d | Some v \<Rightarrow> v)"

record method_unit =
  mu_name :: string
  mu_code :: string
  mu_file_path :: string
  mu_parent_class :: "string option"
  mu_metrics :: metrics

record class_unit =
  cu_name :: string
  cu_code :: string
  cu_file_path :: string
  cu_methods :: "method_unit list"
  cu_metrics :: metrics

record slicer_config =
  extract_metrics :: bool
  min_method_loc :: int
  max_class_loc :: int

text \<open>What the slicer reads of a \<open>javalang\<close> declaration node.\<close>

record method_decl =
  md_name :: string
  md_parameters :: nat

record class_decl =
  cd_name :: string
  cd_methods :: "method_decl list"
  cd_fields :: nat
  cd_modifiers :: "string list"

subsection \<open>Extraction by name (primary path)\<close>

definition modifier_chars :: rx where   \<comment> \<open>\<open>[\w,\s]+\<close>\<close>
  "modifier_chars = Plus (\<lambda>c. is_word c \<or> c = CHR '','' \<or> isspace c)"

definition class_header_rx :: "string \<Rightarrow> rx" where
  "class_header_rx class_name = rx_seq
     [Opt (Alt (Seq (Lit ''public'') ws1)
            (Alt (Seq (Lit ''private'') ws1) (Seq (Lit ''protected'') ws1))),
      Opt (Alt (Seq (Lit ''abstract'') ws1) (Seq (Lit ''final'') ws1)),
      Lit ''class'', ws1, Lit class_name, ws0,
      Opt (rx_seq [Lit ''<'', Plus (\<lambda>c. c \<noteq> CHR ''>''), Lit ''>'']),
      Opt (rx_seq [ws1, Lit ''extends'', ws1, Plus is_word]),
      Opt (rx_seq [ws1, Lit ''implements'', ws1, modifier_chars]),
      ws0, Lit ''{'']"

definition method_rx :: "rx \<Rightarrow> rx" where
  "method_rx name_rx = rx_seq
     [Opt (Alt (Lit ''public'') (Alt (Lit ''private'') (Lit ''protected''))),
      ws1,
      Opt (Seq (Lit ''static'') ws1),
      Plus (\<lambda>c. is_word c \<or> c \<in> set ''<>[]''), ws1,
      name_rx, ws0,
      Lit ''('', Star (\<lambda>c. c \<noteq> CHR '')''), Lit '')'', ws0,
      Opt (rx_seq [Lit ''throws'', ws1, modifier_chars]),
      ws0, Lit ''{'']"

definition extract_class_code_by_name :: "string \<Rightarrow> string \<Rightarrow> string option" where
  "extract_class_code_by_name source_code class_name =
     (case re_search (class_header_rx class_name) source_code of
        None \<Rightarrow> None
      | Some (start_pos, _) \<Rightarrow> extract_block source_code start_pos)"

definition extract_method_code_by_name :: "string \<Rightarrow> string \<Rightarrow> string option" where
  "extract_method_code_by_name source_code method_name =
     (case re_search (method_rx (Lit method_name)) source_code of
        None \<Rightarrow> None
      | Some (start_pos, _) \<Rightarrow> extract_block source_code start_pos)"

definition extract_method_from_ast ::
  "slicer_config \<Rightarrow> method_decl \<Rightarrow> string \<Rightarrow> string \<Rightarrow> string option \<Rightarrow> method_unit option" where
  "extract_method_from_ast cfg node source_code file_path parent_class =
     (case extract_method_code_by_name source_code (md_name node) of
        None \<Rightarrow> None
      | Some method_code \<Rightarrow>
          if method_code = [] then None
          else
            let loc = count_loc method_code;
                metrics =
                  (if extract_metrics cfg then
                     [(''loc'', of_int loc),
                      (''parameter_count'', of_nat (md_parameters node)),
                      (''cyclomatic_complexity'', of_int (estimate_complexity method_code)),
                      (''external_calls'', of_int (count_external_calls method_code))]
                   else [])
            in Some \<lparr>mu_name = md_name node, mu_code = method_code, mu_file_path = file_path,
                      mu_parent_class = parent_class, mu_metrics = metrics\<rparr>)"

text \<open>\<open>_count_getters_setters\<close>\<close>

definition count_getters_setters :: "method_unit list \<Rightarrow> nat" where
  "count_getters_setters methods =
     length (filter (\<lambda>method.
        (startswith (mu_name method) ''get'' \<or> startswith (mu_name method) ''set''
           \<or> startswith (mu_name method) ''is'')
        \<and> metrics_get (mu_metrics method) ''loc'' 0 \<le> 3) methods)"

text \<open>The loop over \<open>node.methods\<close>: the methods kept, in order.\<close>

fun class_methods_from_ast ::
  "slicer_config \<Rightarrow> method_decl list \<Rightarrow> string \<Rightarrow> string \<Rightarrow> string \<Rightarrow> method_unit list" where
  "class_methods_from_ast cfg [] class_code file_path class_name = []"
| "class_methods_from_ast cfg (method_node # nodes) class_code file_path class_name =
     (case extract_method_from_ast cfg method_node class_code file_path (Some class_name) of
        None \<Rightarrow> class_methods_from_ast cfg nodes class_code file_path class_name
      | Some method_info \<Rightarrow>
          if metrics_get (mu_metrics method_info) ''loc'' 0 \<ge> of_int (min_method_loc cfg)
          then method_info # class_methods_from_ast cfg nodes class_code file_path class_name
          else class_methods_from_ast cfg nodes class_code file_path class_name)"

definition extract_class_from_ast ::
  "slicer_config \<Rightarrow> class_decl \<Rightarrow> string \<Rightarrow> string \<Rightarrow> class_unit option" where
  "extract_class_from_ast cfg node source_code file_path =
     (case extract_class_code_by_name source_code (cd_name node) of
        None \<Rightarrow> None
      | Some class_code \<Rightarrow>
          if class_code = [] then None
          else
            let loc = count_loc class_code in
            if loc > max_class_loc cfg then None
            else
              let methods = class_methods_from_ast cfg (cd_methods node) class_code file_path
                              (cd_name node);
                  method_count = length (cd_methods node);
                  field_count = cd_fields node;
                  metrics =
                    (if extract_metrics cfg then
                       [(''loc'', of_int loc),
                        (''method_count'', of_nat method_count),
                        (''field_count'', of_nat field_count),
                        (''is_abstract'', if ''abstract'' \<in> set (cd_modifiers node) then 1 else 0),
                        (''getter_setter_ratio'',
                           if method_count > 0
                           then of_nat (count_getters_setters methods) / of_nat method_count
                           else 0)]
                     else [])
              in Some \<lparr>cu_name = cd_name node, cu_code = class_code, cu_file_path = file_path,
                        cu_methods = methods, cu_metrics = metrics\<rparr>)"

subsection \<open>Extraction by pattern (fallback path)\<close>

definition method_pattern :: rx where
  "method_pattern = method_rx (Grp (Plus is_word))"

definition class_pattern :: rx where
  "class_pattern = rx_seq
     [Opt (Alt (Seq (Lit ''public'') ws1)
            (Alt (Seq (Lit ''private'') ws1) (Seq (Lit ''protected'') ws1))),
      Opt (Alt (Seq (Lit ''abstract'') ws1) (Seq (Lit ''final'') ws1)),
      Lit ''class'', ws1, Grp (Plus is_word)]"

text \<open>The loop of \<open>_extract_methods_regex\<close> over the matches.\<close>

fun methods_of_matches ::
  "slicer_config \<Rightarrow> string \<Rightarrow> string \<Rightarrow> (nat \<times> nat \<times> string option) list \<Rightarrow> method_unit list" where
  "methods_of_matches cfg source_code file_path [] = []"
| "methods_of_matches cfg source_code file_path ((start_pos, end_pos, grp) # matches) =
     (let method_name = (case grp of None \<Rightarrow> [] | Some n \<Rightarrow> n) in
      if method_name \<in> set [''get'', ''set'', ''is'']
      then methods_of_matches cfg source_code file_path matches
      else
        (case extract_block source_code start_pos of
           None \<Rightarrow> methods_of_matches cfg source_code file_path matches
         | Some method_code \<Rightarrow>
             if method_code = [] then methods_of_matches cfg source_code file_path matches
             else
               let loc = count_loc method_code in
               if loc \<ge> min_method_loc cfg then
                 \<lparr>mu_name = method_name, mu_code = method_code, mu_file_path = file_path,
                  mu_parent_class = None,
                  mu_metrics = (if extract_metrics cfg then [(''loc'', of_int loc)] else [])\<rparr>
                 # methods_of_matches cfg source_code file_path matches
               else methods_of_matches cfg source_code file_path matches))"

definition extract_methods_regex :: "slicer_config \<Rightarrow> string \<Rightarrow> string \<Rightarrow> method_unit list" where
  "extract_methods_regex cfg source_code file_path =
     methods_of_matches cfg source_code file_path (re_finditer method_pattern source_code)"

text \<open>The loop of \<open>_extract_classes_regex\<close> over the matches.\<close>

fun classes_of_matches ::
  "slicer_config \<Rightarrow> string \<Rightarrow> string \<Rightarrow> (nat \<times> nat \<times> string option) list \<Rightarrow> class_unit list" where
  "classes_of_matches cfg source_code file_path [] = []"
| "classes_of_matches cfg source_code file_path ((start_pos, end_pos, grp) # matches) =
     (let class_name = (case grp of None \<Rightarrow> [] | Some n \<Rightarrow> n) in
      case extract_block source_code start_pos of
        None \<Rightarrow> classes_of_matches cfg source_code file_path matches
      | Some class_code \<Rightarrow>
          if class_code = [] then classes_of_matches cfg source_code file_path matches
          else
            let loc = count_loc class_code in
            if loc \<le> max_class_loc cfg then
              (let class_methods = extract_methods_regex cfg class_code file_path;
                   metrics = (if extract_metrics cfg then [(''loc'', of_int loc)] else []);
                   metrics = (if class_methods \<noteq> []
                              then metrics @ [(''method_count'', of_nat (length class_methods))]
                              else metrics)
               in \<lparr>cu_name = class_name, cu_code = class_code, cu_file_path = file_path,
                    cu_methods = class_methods, cu_metrics = metrics\<rparr>
                  # classes_of_matches cfg source_code file_path matches)
            else classes_of_matches cfg source_code file_path matches)"

definition extract_classes_regex :: "slicer_config \<Rightarrow> string \<Rightarrow> string \<Rightarrow> class_unit list" where
  "extract_classes_regex cfg source_code file_path =
     classes_of_matches cfg source_code file_path (re_finditer class_pattern source_code)"

subsection \<open>slice_code\<close>

text \<open>
  \<open>javalang\<close> is a parameter of the model. \<open>parse source_code\<close> is \<open>None\<close> when
  \<open>javalang.parse.parse\<close> raises. Otherwise the tree is built and the loop walks it with
  \<open>tree.filter(ClassDeclaration)\<close>: the walk yields class declarations, in its order, and
  either ends (\<open>Completed\<close>) or raises after them (\<open>Interrupted\<close>). The loop stands
  inside the \<open>try\<close> of \<open>slice_code\<close>, so an exception of the walk runs the fallback
  as a failure of the parser does.
\<close>

datatype walk = Completed "class_decl list" | Interrupted "class_decl list"

record slice_result =
  sr_file_path :: string
  sr_classes :: "class_unit list"
  sr_methods :: "method_unit list"
  sr_total_loc :: int

text \<open>The loop over the class declarations: each class extracted is appended to
  \<open>result['classes']\<close>.\<close>

fun walk_classes ::
  "slicer_config \<Rightarrow> class_decl list \<Rightarrow> string \<Rightarrow> string \<Rightarrow> slice_result \<Rightarrow> slice_result" where
  "walk_classes cfg [] source_code file_path result = result"
| "walk_classes cfg (node # nodes) source_code file_path result =
     (case extract_class_from_ast cfg node source_code file_path of
        None \<Rightarrow> walk_classes cfg nodes source_code file_path result
      | Some class_info \<Rightarrow>
          walk_classes cfg nodes source_code file_path
            (result\<lparr>sr_classes := sr_classes result @ [class_info]\<rparr>))"

text \<open>The \<open>except\<close> branch: both lists of the result are assigned anew.\<close>

definition regex_fallback ::
  "slicer_config \<Rightarrow> string \<Rightarrow> string \<Rightarrow> slice_result \<Rightarrow> slice_result" where
  "regex_fallback cfg source_code file_path result =
     result\<lparr>sr_classes := extract_classes_regex cfg source_code file_path,
            sr_methods := extract_methods_regex cfg source_code file_path\<rparr>"

definition slice_code ::
  "(string \<Rightarrow> walk option) \<Rightarrow> slicer_config \<Rightarrow> string \<Rightarrow> string \<Rightarrow> slice_result" where
  "slice_code parse cfg source_code file_path =
     (let result = \<lparr>sr_file_path = file_path, sr_classes = [], sr_methods = [],
                     sr_total_loc = count_loc source_code\<rparr>
      in case parse source_code of
           None \<Rightarrow> regex_fallback cfg source_code file_path result
         | Some (Completed nodes) \<Rightarrow> walk_classes cfg nodes source_code file_path result
         | Some (Interrupted nodes) \<Rightarrow>
             regex_fallback cfg source_code file_path
               (walk_classes cfg nodes source_code file_path result))"


section \<open>Detectors\<close>

subsection \<open>Construction\<close>

text \<open>
  A configuration dictionary and the attributes of an object are association lists of
  Python values. Reading an attribute that was never assigned raises
  \<open>AttributeError\<close>; the constructors return the error or the object.
\<close>

datatype pyval =
    PyNone
  | PyBool bool
  | PyInt int
  | PyFloat rat
  | PyStr string
  | PyDict "(string \<times> pyval) list"

type_synonym pydict = "(string \<times> pyval) list"

datatype py_error = AttributeError string

definition dict_get :: "pydict \<Rightarrow> string \<Rightarrow> pyval \<Rightarrow> pyval" where
  "dict_get d k dflt = (case map_of d k of None \<Rightarrow> dflt | Some v \<Rightarrow> v)"

fun truthy :: "pyval \<Rightarrow> bool" where
  "truthy PyNone = False"
| "truthy (PyBool b) = b"
| "truthy (PyInt i) = (i \<noteq> 0)"
| "truthy (PyFloat r) = (r \<noteq> 0)"
| "truthy (PyStr s) = (s \<noteq> [])"
| "truthy (PyDict d) = (d \<noteq> [])"

definition getattr :: "pydict \<Rightarrow> string \<Rightarrow> py_error + pyval" where
  "getattr self a = (case map_of self a of None \<Rightarrow> Inl (AttributeError a) | Some v \<Rightarrow> Inr v)"

definition bind_err :: "py_error + 'a \<Rightarrow> ('a \<Rightarrow> py_error + 'b) \<Rightarrow> py_error + 'b" where
  "bind_err r f = (case r of Inl e \<Rightarrow> Inl e | Inr v \<Rightarrow> f v)"

text \<open>The dictionary \<open>llm_config\<close> of a detector, built from attributes of \<open>self\<close>.\<close>

definition detector_llm_config :: "pydict \<Rightarrow> py_error + pyval" where
  "detector_llm_config self =
     bind_err (getattr self ''model'') (\<lambda>model.
     bind_err (getattr self ''base_url'') (\<lambda>base_url.
     bind_err (getattr self ''api_key'') (\<lambda>api_key.
     bind_err (getattr self ''temperature'') (\<lambda>temperature.
     bind_err (getattr self ''timeout'') (\<lambda>timeout.
       Inr (PyDict
         [(''config_list'',
             PyDict [(''model'', model), (''base_url'', base_url), (''api_key'', api_key)]),
          (''temperature'', temperature),
          (''timeout'', timeout),
          (''cache_seed'', PyNone)]))))))"

text \<open>\<open>ClassDebtDetector.__init__\<close>: the assignment of \<open>self.timeout\<close> is commented out
  in the source, so the attribute list has no \<open>timeout\<close>.\<close>

definition ClassDebtDetector_init :: "pydict \<Rightarrow> py_error + pydict" where
  "ClassDebtDetector_init agent_config =
     (let self =
        [(''config'', PyDict agent_config),
         (''model'', dict_get agent_config ''model'' (PyStr ''codestral:22b'')),
         (''base_url'', dict_get agent_config ''base_url'' (PyStr ''http://localhost:11434'')),
         (''api_key'', dict_get agent_config ''api_key'' (PyStr ''ollama'')),
         (''shot_type'', dict_get agent_config ''shot'' (PyStr ''few'')),
         (''temperature'', dict_get agent_config ''temperature'' (PyFloat (1/10)))]
      in bind_err (detector_llm_config self) (\<lambda>llm_config.
           Inr (self @ [(''llm_config'', llm_config), (''_agent'', PyNone)])))"

definition MethodDebtDetector_init :: "pydict \<Rightarrow> py_error + pydict" where
  "MethodDebtDetector_init agent_config =
     (let self =
        [(''config'', PyDict agent_config),
         (''model'', dict_get agent_config ''model'' (PyStr ''qwen2.5-coder:7b'')),
         (''base_url'', dict_get agent_config ''base_url'' (PyStr ''http://localhost:11434'')),
         (''api_key'', dict_get agent_config ''api_key'' (PyStr ''ollama'')),
         (''shot_type'', dict_get agent_config ''shot'' (PyStr ''few'')),
         (''temperature'', dict_get agent_config ''temperature'' (PyFloat (1/10))),
         (''timeout'', dict_get agent_config ''timeout'' (PyInt 300))]
      in bind_err (detector_llm_config self) (\<lambda>llm_config.
           Inr (self @ [(''llm_config'', llm_config), (''_agent'', PyNone)])))"

definition LocalizationAgent_init :: "pydict \<Rightarrow> py_error + pydict" where
  "LocalizationAgent_init agent_config =
     Inr [(''config'', PyDict agent_config),
          (''use_ast'', dict_get agent_config ''use_ast'' (PyBool True))]"

text \<open>\<open>ExplanationAgent.__init__\<close> and \<open>FixSuggestionAgent.__init__\<close>: their
  \<open>llm_config\<close> has \<open>max_tokens\<close> and no \<open>timeout\<close>.\<close>

definition generator_llm_config :: "pydict \<Rightarrow> py_error + pyval" where
  "generator_llm_config self =
     bind_err (getattr self ''model'') (\<lambda>model.
     bind_err (getattr self ''base_url'') (\<lambda>base_url.
     bind_err (getattr self ''api_key'') (\<lambda>api_key.
     bind_err (getattr self ''temperature'') (\<lambda>temperature.
     bind_err (getattr self ''max_tokens'') (\<lambda>max_tokens.
       Inr (PyDict
         [(''config_list'',
             PyDict [(''model'', model), (''base_url'', base_url), (''api_key'', api_key)]),
          (''temperature'', temperature),
          (''max_tokens'', max_tokens),
          (''cache_seed'', PyNone)]))))))"

definition ExplanationAgent_init :: "pydict \<Rightarrow> py_error + pydict" where
  "ExplanationAgent_init agent_config =
     (let self =
        [(''config'', PyDict agent_config),
         (''model'', dict_get agent_config ''model'' (PyStr ''codestral:22b'')),
         (''base_url'', dict_get agent_config ''base_url'' (PyStr ''http://localhost:11434'')),
         (''api_key'', dict_get agent_config ''api_key'' (PyStr ''ollama'')),
         (''temperature'', dict_get agent_config ''temperature'' (PyFloat (1/10))),
         (''max_tokens'', dict_get agent_config ''max_tokens'' (PyInt 1000))]
      in bind_err (generator_llm_config self) (\<lambda>llm_config.
           Inr (self @ [(''llm_config'', llm_config), (''_agent'', PyNone)])))"

definition FixSuggestionAgent_init :: "pydict \<Rightarrow> py_error + pydict" where
  "FixSuggestionAgent_init agent_config =
     (let self =
        [(''config'', PyDict agent_config),
         (''model'', dict_get agent_config ''model'' (PyStr ''codestral:22b'')),
         (''base_url'', dict_get agent_config ''base_url'' (PyStr ''http://localhost:11434'')),
         (''api_key'', dict_get agent_config ''api_key'' (PyStr ''ollama'')),
         (''temperature'', dict_get agent_config ''temperature'' (PyFloat (1/10))),
         (''max_tokens'', dict_get agent_config ''max_tokens'' (PyInt 2000)),
         (''validate_fixes'', dict_get agent_config ''validate_fixes'' (PyBool False))]
      in bind_err (generator_llm_config self) (\<lambda>llm_config.
           Inr (self @ [(''llm_config'', llm_config), (''_agent'', PyNone)])))"

subsection \<open>Detection results\<close>

datatype location =
    Location (start_line: int) (end_line: int) (loc_file_path: string) (approximate: bool)
  | LocationError (loc_error: string) (err_file_path: "string option")

text \<open>
  A detection result dictionary. A field of option type is \<open>None\<close> when the key is
  absent (for \<open>d_debt_type\<close>: when the value is Python's \<open>None\<close>; the key is always
  there). In \<open>Location\<close>, \<open>approximate\<close> is \<open>False\<close> when the key is not set.
\<close>

record detection =
  d_type :: string
  d_name :: string
  d_label :: string
  d_debt_type :: "string option"
  d_confidence :: rat
  d_metrics :: "metrics option"
  d_raw_response :: "string option"
  d_granularity :: "string option"
  d_error :: "string option"
  d_code :: "string option"
  d_file_path :: "string option"
  d_location :: "location option"
  d_explanation :: "string option"
  d_fix_suggestion :: "string option"

text \<open>The reply of an agent: \<open>None\<close> or a dictionary.\<close>

type_synonym response = "(string \<times> string) list option"

definition has_content :: "response \<Rightarrow> bool" where   \<comment> \<open>\<open>response and "content" in response\<close>\<close>
  "has_content response =
     (case response of None \<Rightarrow> False | Some d \<Rightarrow> d \<noteq> [] \<and> map_of d ''content'' \<noteq> None)"

definition content_of :: "response \<Rightarrow> string" where   \<comment> \<open>\<open>response["content"]\<close>\<close>
  "content_of response =
     (case response of None \<Rightarrow> [] | Some d \<Rightarrow> (case map_of d ''content'' of None \<Rightarrow> [] | Some c \<Rightarrow> c))"

definition no_response :: "string \<Rightarrow> string \<Rightarrow> detection" where
  "no_response type name =
     \<lparr>d_type = type, d_name = name, d_label = ''UNKNOWN'', d_debt_type = None,
      d_confidence = 0, d_metrics = None, d_raw_response = None, d_granularity = None,
      d_error = Some ''No response from agent'', d_code = None, d_file_path = None,
      d_location = None, d_explanation = None, d_fix_suggestion = None\<rparr>"

definition detection_message :: "string \<Rightarrow> string \<Rightarrow> string" where
  "detection_message task_prompt code =
     task_prompt @ ''```java'' @ [CHR 0x0A] @ code @ [CHR 0x0A] @ ''```''"

subsection \<open>Class detector\<close>

definition ClassDebtDetector_normalize_label :: "string \<Rightarrow> string" where
  "ClassDebtDetector_normalize_label text =
     (case find (\<lambda>c. c \<in> set ''012'') text of Some c \<Rightarrow> [c] | None \<Rightarrow> ''UNKNOWN'')"

definition ClassDebtDetector_label_to_debt_type :: "string \<Rightarrow> string option" where
  "ClassDebtDetector_label_to_debt_type label =
     map_of [(''0'', ''No Smell''), (''1'', ''Blob''), (''2'', ''Data Class'')] label"

definition ClassDebtDetector_calculate_confidence :: "string \<Rightarrow> metrics \<Rightarrow> rat" where
  "ClassDebtDetector_calculate_confidence label metrics =
     (if label = ''0'' then 9/10
      else if label = ''1'' then
        (let loc = metrics_get metrics ''loc'' 0;
             method_count = metrics_get metrics ''method_count'' 0
         in if loc > 500 \<or> method_count > 20 then 9/10
            else if loc > 300 \<or> method_count > 15 then 75/100
            else 6/10)
      else if label = ''2'' then
        (let getter_setter_ratio = metrics_get metrics ''getter_setter_ratio'' 0
         in if getter_setter_ratio > 8/10 then 9/10
            else if getter_setter_ratio > 6/10 then 75/100
            else 6/10)
      else 5/10)"

definition ClassDebtDetector_detect ::
  "string \<Rightarrow> (string \<Rightarrow> response) \<Rightarrow> class_unit \<Rightarrow> detection" where
  "ClassDebtDetector_detect task_prompt generate_reply class_info =
     (let code = cu_code class_info;
          class_name = cu_name class_info;
          metrics = cu_metrics class_info;
          response = generate_reply (detection_message task_prompt code)
      in if has_content response then
           (let raw_label = strip (content_of response);
                label = ClassDebtDetector_normalize_label raw_label;
                confidence = ClassDebtDetector_calculate_confidence label metrics
            in \<lparr>d_type = ''class'', d_name = class_name, d_label = label,
                 d_debt_type = ClassDebtDetector_label_to_debt_type label,
                 d_confidence = confidence, d_metrics = Some metrics,
                 d_raw_response = Some raw_label, d_granularity = Some ''class'',
                 d_error = None, d_code = None, d_file_path = None, d_location = None,
                 d_explanation = None, d_fix_suggestion = None\<rparr>)
         else no_response ''class'' class_name)"

subsection \<open>Method detector\<close>

definition MethodDebtDetector_normalize_label :: "string \<Rightarrow> string" where
  "MethodDebtDetector_normalize_label text =
     (if str_contains ''3'' text then ''3''
      else if str_contains ''4'' text then ''4''
      else if str_contains ''0'' text then ''0''
      else ''UNKNOWN'')"

definition MethodDebtDetector_label_to_debt_type :: "string \<Rightarrow> string option" where
  "MethodDebtDetector_label_to_debt_type label =
     map_of [(''0'', ''No Smell''), (''3'', ''Feature Envy''), (''4'', ''Long Method'')] label"

definition MethodDebtDetector_calculate_confidence :: "string \<Rightarrow> metrics \<Rightarrow> rat" where
  "MethodDebtDetector_calculate_confidence label metrics =
     (if label = ''0'' then 9/10
      else if label = ''3'' then
        (let external_calls = metrics_get metrics ''external_calls'' 0
         in if external_calls \<ge> 7 then 9/10
            else if external_calls \<ge> 5 then 75/100
            else 6/10)
      else if label = ''4'' then
        (let loc = metrics_get metrics ''loc'' 0;
             complexity = metrics_get metrics ''cyclomatic_complexity'' 0
         in if loc \<ge> 25 \<or> complexity \<ge> 15 then 9/10
            else if loc \<ge> 15 \<or> complexity \<ge> 10 then 75/100
            else 6/10)
      else 5/10)"

definition MethodDebtDetector_detect ::
  "string \<Rightarrow> (string \<Rightarrow> response) \<Rightarrow> method_unit \<Rightarrow> detection" where
  "MethodDebtDetector_detect task_prompt generate_reply method_info =
     (let code = mu_code method_info;
          method_name = mu_name method_info;
          metrics = mu_metrics method_info;
          response = generate_reply (detection_message task_prompt code)
      in if has_content response then
           (let raw_label = strip (content_of response);
                label = MethodDebtDetector_normalize_label raw_label;
                confidence = MethodDebtDetector_calculate_confidence label metrics
            in \<lparr>d_type = ''method'', d_name = method_name, d_label = label,
                 d_debt_type = MethodDebtDetector_label_to_debt_type label,
                 d_confidence = confidence, d_metrics = Some metrics,
                 d_raw_response = Some raw_label, d_granularity = Some ''method'',
                 d_error = None, d_code = None, d_file_path = None, d_location = None,
                 d_explanation = None, d_fix_suggestion = None\<rparr>)
         else no_response ''method'' method_name)"


subsection \<open>Localization\<close>

text \<open>The loop \<open>for i, line in enumerate(lines): if p(line): ...; break\<close>: the index of the
  first line that satisfies \<open>p\<close>.\<close>

fun first_index_from :: "('a \<Rightarrow> bool) \<Rightarrow> 'a list \<Rightarrow> nat \<Rightarrow> nat option" where
  "first_index_from p [] i = None"
| "first_index_from p (x # xs) i = (if p x then Some i else first_index_from p xs (i + 1))"

definition first_index :: "('a \<Rightarrow> bool) \<Rightarrow> 'a list \<Rightarrow> nat option" where
  "first_index p xs = first_index_from p xs 0"

definition declaration_rx :: "string \<Rightarrow> string \<Rightarrow> rx" where
  "declaration_rx type name =
     (if type = ''class'' then rx_seq [Lit ''class'', ws1, Lit name]
      else rx_seq [ws1, Lit name, ws0, Lit ''(''])"

definition localize :: "detection \<Rightarrow> string \<Rightarrow> detection" where
  "localize debt_result source_file_content =
     (let code_snippet = (case d_code debt_result of None \<Rightarrow> [] | Some c \<Rightarrow> c);
          name = d_name debt_result;
          file_path = (case d_file_path debt_result of None \<Rightarrow> ''unknown'' | Some f \<Rightarrow> f)
      in if code_snippet = [] \<or> source_file_content = [] then
           debt_result\<lparr>d_location := Some (LocationError ''Missing code or source file'' None)\<rparr>
         else
           (let lines = split_lines source_file_content;
                snippet_lines = split_lines (strip code_snippet);
                first_line = (case snippet_lines of [] \<Rightarrow> [] | l # _ \<Rightarrow> strip l)
            in case first_index (\<lambda>line. str_contains first_line (strip line)) lines of
                 Some i \<Rightarrow>
                   (let start_line = int i + 1;
                        end_line = start_line + int (length snippet_lines) - 1
                    in debt_result\<lparr>d_location :=
                         Some (Location start_line end_line file_path False)\<rparr>)
               | None \<Rightarrow>
                   (case first_index
                           (\<lambda>line. re_search (declaration_rx (d_type debt_result) name) line \<noteq> None)
                           lines of
                      Some i \<Rightarrow>
                        (let start_line = int i + 1;
                             end_line = start_line + int (length snippet_lines)
                         in debt_result\<lparr>d_location :=
                              Some (Location start_line end_line file_path True)\<rparr>)
                    | None \<Rightarrow>
                        (if d_location debt_result = None then
                           debt_result\<lparr>d_location :=
                             Some (LocationError ''Could not localize code'' (Some file_path))\<rparr>
                         else debt_result))))"

subsection \<open>Explanation and fix suggestion\<close>

text \<open>The reply of the agent is a parameter; the prompt is built from the result.\<close>

definition explain :: "(detection \<Rightarrow> response) \<Rightarrow> detection \<Rightarrow> detection" where
  "explain generate_reply debt_result =
     (if d_debt_type debt_result \<in> {None, Some [], Some ''No Smell''} then
        debt_result\<lparr>d_explanation := None\<rparr>
      else
        (let response = generate_reply debt_result
         in if has_content response
            then debt_result\<lparr>d_explanation := Some (strip (content_of response))\<rparr>
            else debt_result\<lparr>d_explanation := Some ''Could not generate explanation''\<rparr>))"

definition suggest_fix :: "(detection \<Rightarrow> response) \<Rightarrow> detection \<Rightarrow> detection" where
  "suggest_fix generate_reply debt_result =
     (if d_debt_type debt_result \<in> {None, Some [], Some ''No Smell''} then
        debt_result\<lparr>d_fix_suggestion := None\<rparr>
      else
        (let response = generate_reply debt_result
         in if has_content response
            then debt_result\<lparr>d_fix_suggestion := Some (strip (content_of response))\<rparr>
            else debt_result\<lparr>d_fix_suggestion := Some ''Could not generate fix suggestion''\<rparr>))"


section \<open>Coordinator\<close>

subsection \<open>Construction\<close>

record coordinator_settings =
  cs_parallel_detection :: "bool option"
  cs_conflict_resolution_strategy :: "string option"
  cs_min_confidence :: "rat option"

text \<open>The configuration dictionary: a field is \<open>None\<close> when the key is absent.\<close>

record agent_configs =
  ac_class_detector :: "pydict option"
  ac_method_detector :: "pydict option"
  ac_localization :: "pydict option"
  ac_explanation :: "pydict option"
  ac_fix_suggestion :: "pydict option"
  ac_coordinator :: "coordinator_settings option"

record coordinator =
  co_class_detector :: "pydict option"
  co_method_detector :: "pydict option"
  co_localizer :: "pydict option"
  co_explainer :: "pydict option"
  co_fix_suggester :: "pydict option"
  co_parallel_detection :: bool
  co_conflict_strategy :: string
  co_min_confidence :: rat

definition config_get :: "pydict option \<Rightarrow> pydict" where   \<comment> \<open>\<open>config.get(key, {})\<close>\<close>
  "config_get c = (case c of None \<Rightarrow> [] | Some d \<Rightarrow> d)"

text \<open>One agent of \<open>_initialize_agents\<close>: constructed when \<open>enabled\<close> is true.\<close>

definition init_agent ::
  "pydict \<Rightarrow> bool \<Rightarrow> (pydict \<Rightarrow> py_error + pydict) \<Rightarrow> py_error + pydict option" where
  "init_agent agent_config enabled_default constructor =
     (if truthy (dict_get agent_config ''enabled'' (PyBool enabled_default))
      then bind_err (constructor agent_config) (\<lambda>agent. Inr (Some agent))
      else Inr None)"

definition DebtDetectionCoordinator_init :: "agent_configs \<Rightarrow> py_error + coordinator" where
  "DebtDetectionCoordinator_init config =
     (let coordinator_config =
            (case ac_coordinator config of
               None \<Rightarrow> \<lparr>cs_parallel_detection = None, cs_conflict_resolution_strategy = None,
                         cs_min_confidence = None\<rparr>
             | Some c \<Rightarrow> c);
          parallel_detection =
            (case cs_parallel_detection coordinator_config of None \<Rightarrow> False | Some b \<Rightarrow> b);
          conflict_strategy =
            (case cs_conflict_resolution_strategy coordinator_config of
               None \<Rightarrow> ''prioritize_class'' | Some v \<Rightarrow> v);
          min_confidence =
            (case cs_min_confidence coordinator_config of None \<Rightarrow> 5/10 | Some v \<Rightarrow> v)
      in
        bind_err (init_agent (config_get (ac_class_detector config)) True
                    ClassDebtDetector_init) (\<lambda>class_detector.
        bind_err (init_agent (config_get (ac_method_detector config)) True
                    MethodDebtDetector_init) (\<lambda>method_detector.
        bind_err (init_agent (config_get (ac_localization config)) True
                    LocalizationAgent_init) (\<lambda>localizer.
        bind_err (init_agent (config_get (ac_explanation config)) True
                    ExplanationAgent_init) (\<lambda>explainer.
        bind_err (init_agent (config_get (ac_fix_suggestion config)) False
                    FixSuggestionAgent_init) (\<lambda>fix_suggester.
          Inr \<lparr>co_class_detector = class_detector, co_method_detector = method_detector,
               co_localizer = localizer, co_explainer = explainer,
               co_fix_suggester = fix_suggester,
               co_parallel_detection = parallel_detection,
               co_conflict_strategy = conflict_strategy,
               co_min_confidence = min_confidence\<rparr>))))))"

subsection \<open>Analysis of one file\<close>

text \<open>
  What the coordinator does not compute itself is a parameter: the task prompts, the
  replies of the agents, and \<open>as_completed\<close>, the order in which the results of a
  parallel batch are collected.
\<close>

record environment =
  class_task_prompt :: string
  method_task_prompt :: string
  class_reply :: "string \<Rightarrow> response"
  method_reply :: "string \<Rightarrow> response"
  explain_reply :: "detection \<Rightarrow> response"
  fix_reply :: "detection \<Rightarrow> response"
  as_completed :: "detection list \<Rightarrow> detection list"

definition detect_class_debts ::
  "environment \<Rightarrow> coordinator \<Rightarrow> class_unit list \<Rightarrow> detection list" where
  "detect_class_debts env co classes =
     (let detect = ClassDebtDetector_detect (class_task_prompt env) (class_reply env);
          results = (if co_parallel_detection co \<and> length classes > 1
                     then as_completed env (map detect classes)
                     else map detect classes)
      in filter (\<lambda>r. d_label r \<noteq> ''0'') results)"

definition detect_method_debts ::
  "environment \<Rightarrow> coordinator \<Rightarrow> method_unit list \<Rightarrow> detection list" where
  "detect_method_debts env co methods =
     (let detect = MethodDebtDetector_detect (method_task_prompt env) (method_reply env);
          results = (if co_parallel_detection co \<and> length methods > 1
                     then as_completed env (map detect methods)
                     else map detect methods)
      in filter (\<lambda>r. d_label r \<noteq> ''0'') results)"

definition post_process ::
  "environment \<Rightarrow> coordinator \<Rightarrow> detection list \<Rightarrow> string \<Rightarrow> detection list" where
  "post_process env co detections source_content =
     map (\<lambda>detection.
            let detection = (if co_localizer co \<noteq> None
                             then localize detection source_content else detection);
                detection = (if co_explainer co \<noteq> None
                             then explain (explain_reply env) detection else detection);
                detection = (if co_fix_suggester co \<noteq> None
                             then suggest_fix (fix_reply env) detection else detection)
            in detection)
         detections"

text \<open>\<open>d[k] = d.get(k, 0) + n\<close> on a dictionary kept in insertion order.\<close>

fun dict_add :: "('k \<times> nat) list \<Rightarrow> 'k \<Rightarrow> nat \<Rightarrow> ('k \<times> nat) list" where
  "dict_add [] k n = [(k, n)]"
| "dict_add ((a, v) # rest) k n =
     (if a = k then (a, v + n) # rest else (a, v) # dict_add rest k n)"

record summary =
  su_total_debts :: nat
  su_by_type :: "(string option \<times> nat) list"
  su_by_class :: nat
  su_by_method :: nat
  su_high_confidence :: nat

fun summary_loop :: "detection list \<Rightarrow> summary \<Rightarrow> summary" where
  "summary_loop [] summary = summary"
| "summary_loop (detection # detections) summary =
     (let summary = summary\<lparr>su_by_type := dict_add (su_by_type summary) (d_debt_type detection) 1\<rparr>;
          summary = (if d_granularity detection = Some ''class''
                     then summary\<lparr>su_by_class := su_by_class summary + 1\<rparr>
                     else if d_granularity detection = Some ''method''
                     then summary\<lparr>su_by_method := su_by_method summary + 1\<rparr>
                     else summary);
          summary = (if d_confidence detection \<ge> 8/10
                     then summary\<lparr>su_high_confidence := su_high_confidence summary + 1\<rparr>
                     else summary)
      in summary_loop detections summary)"

definition generate_summary :: "detection list \<Rightarrow> summary" where
  "generate_summary detections =
     summary_loop detections
       \<lparr>su_total_debts = length detections, su_by_type = [], su_by_class = 0,
        su_by_method = 0, su_high_confidence = 0\<rparr>"

text \<open>The list \<open>all_detections\<close> of \<open>analyze_file\<close>.\<close>

definition all_detections ::
  "environment \<Rightarrow> coordinator \<Rightarrow> slice_result \<Rightarrow> detection list" where
  "all_detections env co sliced_data =
     (let classes = sr_classes sliced_data;
          methods = sr_methods sliced_data
      in (if co_class_detector co \<noteq> None \<and> classes \<noteq> []
          then detect_class_debts env co classes else [])
       @ (if co_method_detector co \<noteq> None \<and> methods \<noteq> []
          then detect_method_debts env co methods else [])
       @ (if co_method_detector co \<noteq> None
          then concat (map (\<lambda>class_info.
                 if cu_methods class_info \<noteq> []
                 then detect_method_debts env co (cu_methods class_info) else []) classes)
          else []))"

record file_analysis =
  fa_file_path :: string
  fa_total_detections :: nat
  fa_filtered_detections :: nat
  fa_debts :: "detection list"
  fa_summary :: summary

definition analyze_file ::
  "environment \<Rightarrow> coordinator \<Rightarrow> slice_result \<Rightarrow> string option \<Rightarrow> file_analysis" where
  "analyze_file env co sliced_data source_file_content =
     (let all = all_detections env co sliced_data;
          filtered_detections = filter (\<lambda>d. d_confidence d \<ge> co_min_confidence co) all;
          filtered_detections =
            (case source_file_content of
               None \<Rightarrow> filtered_detections
             | Some content \<Rightarrow>
                 if content \<noteq> [] then post_process env co filtered_detections content
                 else filtered_detections)
      in \<lparr>fa_file_path = sr_file_path sliced_data,
          fa_total_detections = length all,
          fa_filtered_detections = length filtered_detections,
          fa_debts = filtered_detections,
          fa_summary = generate_summary filtered_detections\<rparr>)"


section \<open>Aggregation over files\<close>

text \<open>A file result of \<open>DebtGuardian.analyze_directory\<close>: \<open>status\<close> is
  \<open>'completed'\<close> for an analysed file and \<open>'failed'\<close> for a failed one, which has no
  \<open>debts\<close>.\<close>

record file_result =
  fr_file_path :: string
  fr_status :: "string option"
  fr_debts :: "detection list option"
  fr_error :: "string option"

record aggregate =
  ag_total_debts :: nat
  ag_by_type :: "(string option \<times> nat) list"
  ag_by_class :: nat
  ag_by_method :: nat
  ag_high_confidence_debts :: nat
  ag_files_with_debts :: nat
  ag_average_debts_per_file :: rat

fun aggregate_debts :: "detection list \<Rightarrow> aggregate \<Rightarrow> aggregate" where
  "aggregate_debts [] aggregate = aggregate"
| "aggregate_debts (debt # debts) aggregate =
     (let aggregate = aggregate\<lparr>ag_by_type := dict_add (ag_by_type aggregate) (d_debt_type debt) 1\<rparr>;
          aggregate = (if d_granularity debt = Some ''class''
                       then aggregate\<lparr>ag_by_class := ag_by_class aggregate + 1\<rparr>
                       else if d_granularity debt = Some ''method''
                       then aggregate\<lparr>ag_by_method := ag_by_method aggregate + 1\<rparr>
                       else aggregate);
          aggregate = (if d_confidence debt \<ge> 8/10
                       then aggregate\<lparr>ag_high_confidence_debts :=
                              ag_high_confidence_debts aggregate + 1\<rparr>
                       else aggregate)
      in aggregate_debts debts aggregate)"

text \<open>The loop over the file results, with the counter \<open>valid_files\<close>.\<close>

fun aggregate_files :: "file_result list \<Rightarrow> aggregate \<Rightarrow> nat \<Rightarrow> aggregate \<times> nat" where
  "aggregate_files [] aggregate valid_files = (aggregate, valid_files)"
| "aggregate_files (result # results) aggregate valid_files =
     (if fr_status result \<noteq> Some ''completed'' then aggregate_files results aggregate valid_files
      else
        (let debts = (case fr_debts result of None \<Rightarrow> [] | Some ds \<Rightarrow> ds);
             aggregate = (if debts \<noteq> []
                          then aggregate\<lparr>ag_files_with_debts := ag_files_with_debts aggregate + 1\<rparr>
                          else aggregate);
             aggregate = aggregate\<lparr>ag_total_debts := ag_total_debts aggregate + length debts\<rparr>;
             aggregate = aggregate_debts debts aggregate
         in aggregate_files results aggregate (valid_files + 1)))"

definition aggregate_results :: "file_result list \<Rightarrow> aggregate" where
  "aggregate_results file_results =
     (let init = \<lparr>ag_total_debts = 0, ag_by_type = [], ag_by_class = 0, ag_by_method = 0,
                  ag_high_confidence_debts = 0, ag_files_with_debts = 0,
                  ag_average_debts_per_file = 0\<rparr>;
          (aggregate, valid_files) = aggregate_files file_results init 0
      in if valid_files > 0
         then aggregate\<lparr>ag_average_debts_per_file :=
                of_nat (ag_total_debts aggregate) / of_nat valid_files\<rparr>
         else aggregate)"


section \<open>The specification's formulations\<close>

subsection \<open>Block extraction by depth\<close>

text \<open>
  Block extraction as a depth counter over the text that starts at the opening brace. A
  scanner state says whether the position is inside a string literal, inside a character
  literal, and whether the character is escaped by a backslash before it. A brace changes
  the depth only where the scanner is outside both kinds of literal. The block ends at
  the first position where the depth is zero again; its text is the characters of the
  source from the start position through that position.
\<close>

type_synonym lex = "bool \<times> bool \<times> bool"

text \<open>The first opening brace at or after a position.\<close>

definition first_brace :: "string \<Rightarrow> nat \<Rightarrow> nat option" where
  "first_brace source_code start_pos =
     find (\<lambda>k. source_code ! k = CHR ''{'') [start_pos..<length source_code]"

text \<open>The characters of the source at the positions from \<open>i\<close> up to \<open>j\<close>, \<open>j\<close> excluded.\<close>

definition text_between :: "string \<Rightarrow> nat \<Rightarrow> nat \<Rightarrow> string" where
  "text_between source_code i j = map (\<lambda>k. source_code ! k) [i..<j]"

paragraph \<open>The escape flag inside literals only\<close>

text \<open>
  The scanner of the specification: the escape flag belongs to the literal spans. Inside
  a literal a backslash escapes the next character, so that an escaped quote does not
  end the span; outside the literals a backslash is a character like any other, a quote
  opens a span, and every brace counts.
\<close>

definition claim_lex_step :: "lex \<Rightarrow> char \<Rightarrow> lex" where
  "claim_lex_step st ch =
     (case st of (in_string, in_char, escape) \<Rightarrow>
        if in_string \<or> in_char then
          (if escape then (in_string, in_char, False)
           else if ch = CHR 0x5C then (in_string, in_char, True)
           else if in_string \<and> ch = CHR 0x22 then (False, in_char, False)
           else if in_char \<and> ch = CHR 0x27 then (in_string, False, False)
           else (in_string, in_char, False))
        else if ch = CHR 0x22 then (True, False, False)
        else if ch = CHR 0x27 then (False, True, False)
        else (False, False, False))"

definition claim_brace_delta :: "lex \<Rightarrow> char \<Rightarrow> int" where
  "claim_brace_delta st ch =
     (case st of (in_string, in_char, escape) \<Rightarrow>
        if in_string \<or> in_char then 0
        else if ch = CHR ''{'' then 1 else if ch = CHR ''}'' then - 1 else 0)"

fun claim_depth_from :: "lex \<Rightarrow> string \<Rightarrow> int" where
  "claim_depth_from st [] = 0"
| "claim_depth_from st (ch # rest) =
     claim_brace_delta st ch + claim_depth_from (claim_lex_step st ch) rest"

definition claim_extract_block :: "string \<Rightarrow> nat \<Rightarrow> string option" where
  "claim_extract_block source_code start_pos =
     (case first_brace source_code start_pos of
        None \<Rightarrow> None
      | Some brace_pos \<Rightarrow>
          (case find (\<lambda>j. claim_depth_from (False, False, False)
                             (take (Suc j) (drop brace_pos source_code)) = 0)
                     [0..<length source_code - brace_pos] of
             None \<Rightarrow> None
           | Some j \<Rightarrow> Some (text_between source_code start_pos (brace_pos + j + 1))))"

paragraph \<open>The escape flag at every position\<close>

text \<open>
  The scanner with the escape flag kept at every position: a backslash, inside or outside
  a literal, escapes the next character, which then neither changes the depth nor opens
  or ends a literal; the backslash itself is no brace and no quote.
\<close>

definition lex_step :: "lex \<Rightarrow> char \<Rightarrow> lex" where
  "lex_step st ch =
     (case st of (in_string, in_char, escape) \<Rightarrow>
        if escape then (in_string, in_char, False)
        else if ch = CHR 0x5C then (in_string, in_char, True)
        else if ch = CHR 0x22 \<and> \<not> in_char then (\<not> in_string, in_char, False)
        else if ch = CHR 0x27 \<and> \<not> in_string then (in_string, \<not> in_char, False)
        else (in_string, in_char, False))"

definition outside_literal :: "lex \<Rightarrow> char \<Rightarrow> bool" where
  "outside_literal st ch =
     (case st of (in_string, in_char, escape) \<Rightarrow>
        \<not> escape \<and> ch \<noteq> CHR 0x5C \<and>
        (case lex_step st ch of (in_string', in_char', _) \<Rightarrow> \<not> in_string' \<and> \<not> in_char'))"

definition brace_delta :: "lex \<Rightarrow> char \<Rightarrow> int" where
  "brace_delta st ch =
     (if outside_literal st ch
      then (if ch = CHR ''{'' then 1 else if ch = CHR ''}'' then - 1 else 0)
      else 0)"

fun depth_from :: "lex \<Rightarrow> string \<Rightarrow> int" where
  "depth_from st [] = 0"
| "depth_from st (ch # rest) = brace_delta st ch + depth_from (lex_step st ch) rest"

definition depth_after :: "string \<Rightarrow> int" where
  "depth_after text = depth_from (False, False, False) text"

text \<open>The first position of \<open>text\<close> after which the depth is zero.\<close>

definition first_balanced :: "string \<Rightarrow> nat option" where
  "first_balanced text = find (\<lambda>j. depth_after (take (Suc j) text) = 0) [0..<length text]"

definition amended_extract_block :: "string \<Rightarrow> nat \<Rightarrow> string option" where
  "amended_extract_block source_code start_pos =
     (case first_brace source_code start_pos of
        None \<Rightarrow> None
      | Some brace_pos \<Rightarrow>
          (case first_balanced (drop brace_pos source_code) of
             None \<Rightarrow> None
           | Some j \<Rightarrow> Some (text_between source_code start_pos (brace_pos + j + 1))))"

paragraph \<open>Example texts\<close>

text \<open>A block with the string literal of the specification's example: the characters
  \<open>a\<close>, backslash, quote, \<open>{\<close>, backslash, quote, space, \<open>b\<close> between two quotes.\<close>

definition escaped_quote_block :: string where
  "escaped_quote_block =
     ''{ String s = '' @ [CHR 0x22] @ ''a'' @ [CHR 0x5C, CHR 0x22] @ ''{''
       @ [CHR 0x5C, CHR 0x22] @ '' b'' @ [CHR 0x22] @ ''; }''"

text \<open>A closing brace after a backslash, outside any literal: the characters \<open>{\<close>, space,
  backslash, \<open>}\<close>, space, \<open>}\<close>.\<close>

definition escaped_brace_text :: string where
  "escaped_brace_text = ''{ '' @ [CHR 0x5C] @ ''} }''"

text \<open>A quote after a backslash, outside any literal: the characters \<open>{\<close>, space,
  backslash, quote, space, \<open>}\<close>, space, \<open>x\<close>.\<close>

definition escaped_quote_text :: string where
  "escaped_quote_text = ''{ '' @ [CHR 0x5C, CHR 0x22] @ '' } x''"

subsection \<open>The confidence table\<close>

datatype granularity = Class_granularity | Method_granularity

definition calculate_confidence :: "granularity \<Rightarrow> string \<Rightarrow> metrics \<Rightarrow> rat" where
  "calculate_confidence g label metrics =
     (case g of
        Class_granularity \<Rightarrow> ClassDebtDetector_calculate_confidence label metrics
      | Method_granularity \<Rightarrow> MethodDebtDetector_calculate_confidence label metrics)"

text \<open>The labels of each granularity.\<close>

definition label_vocabulary :: "granularity \<Rightarrow> string list" where
  "label_vocabulary g =
     (case g of
        Class_granularity \<Rightarrow> [''0'', ''1'', ''2'', ''UNKNOWN'']
      | Method_granularity \<Rightarrow> [''0'', ''3'', ''4'', ''UNKNOWN''])"

text \<open>The table of the specification, one row per label: the condition of tier 1 (0.9),
  the condition of tier 2 (0.75), and 0.6 otherwise; 0.5 for \<open>UNKNOWN\<close>.\<close>

definition tier1 :: "string \<Rightarrow> metrics \<Rightarrow> bool" where
  "tier1 label m =
     (label = ''0''
      \<or> label = ''1'' \<and> (metrics_get m ''loc'' 0 > 500 \<or> metrics_get m ''method_count'' 0 > 20)
      \<or> label = ''2'' \<and> metrics_get m ''getter_setter_ratio'' 0 > 8/10
      \<or> label = ''3'' \<and> metrics_get m ''external_calls'' 0 \<ge> 7
      \<or> label = ''4'' \<and> (metrics_get m ''loc'' 0 \<ge> 25
                          \<or> metrics_get m ''cyclomatic_complexity'' 0 \<ge> 15))"

definition tier2 :: "string \<Rightarrow> metrics \<Rightarrow> bool" where
  "tier2 label m =
     (label = ''1'' \<and> (metrics_get m ''loc'' 0 > 300 \<or> metrics_get m ''method_count'' 0 > 15)
      \<or> label = ''2'' \<and> metrics_get m ''getter_setter_ratio'' 0 > 6/10
      \<or> label = ''3'' \<and> metrics_get m ''external_calls'' 0 \<ge> 5
      \<or> label = ''4'' \<and> (metrics_get m ''loc'' 0 \<ge> 15
                          \<or> metrics_get m ''cyclomatic_complexity'' 0 \<ge> 10))"

definition confidence_table :: "string \<Rightarrow> metrics \<Rightarrow> rat" where
  "confidence_table label m =
     (if label = ''UNKNOWN'' then 5/10
      else if tier1 label m then 9/10
      else if tier2 label m then 75/100
      else 6/10)"

subsection \<open>Lines of code by comment spans\<close>

text \<open>A line that is blank after trimming, and a line that a line comment consumes
  whole.\<close>

definition blank_line :: "string \<Rightarrow> bool" where
  "blank_line line = list_all isspace line"

definition line_comment :: "string \<Rightarrow> bool" where
  "line_comment line = (take 2 (dropWhile isspace line) = ''//'')"

text \<open>
  The comment tokens of one line, read from the left: outside a span the start token
  opens one, inside a span the end token that matches closes it, and a token is two
  characters that are read together. \<open>opn\<close> says whether a span is open at the head of
  the rest of the line, \<open>touched\<close> whether a part of the line read so far lies in a span,
  \<open>skip\<close> that the head is the second character of a token. The result is the state
  after the line and whether the line lies in a span.
\<close>

fun span_scan :: "string \<Rightarrow> bool \<Rightarrow> bool \<Rightarrow> bool \<Rightarrow> bool \<times> bool" where
  "span_scan [] opn touched skip = (opn, touched)"
| "span_scan (c # cs) opn touched skip =
     (if skip then span_scan cs opn touched False
      else if opn then
        (if take 2 (c # cs) = ''*/'' then span_scan cs False True True
         else span_scan cs True True False)
      else
        (if take 2 (c # cs) = ''/*'' then span_scan cs True True True
         else span_scan cs False touched False))"

text \<open>For each line, whether it lies in a multi-line comment span, from the line with
  the start token through the line with the matching end token.\<close>

fun span_marks :: "string list \<Rightarrow> bool \<Rightarrow> bool list" where
  "span_marks [] opn = []"
| "span_marks (line # lines) opn =
     (case span_scan line opn opn False of
        (opn', touched) \<Rightarrow> touched # span_marks lines opn')"

text \<open>The rule as the specification states it: the lines that are not blank, not a line
  comment and not in a comment span.\<close>

definition spec_count_loc :: "string \<Rightarrow> int" where
  "spec_count_loc code =
     (let lines = split_lines code
      in int (length (filter (\<lambda>(line, inside).
                \<not> blank_line line \<and> \<not> line_comment line \<and> \<not> inside)
              (zip lines (span_marks lines False)))))"

text \<open>A line of code with the end token in a string literal, and a text whose first line
  closes a comment and opens the next one.\<close>

definition end_token_line :: string where
  "end_token_line = ''String s = '' @ [CHR 0x22] @ ''*/'' @ [CHR 0x22] @ '';''"

definition reopened_span_text :: string where
  "reopened_span_text =
     ''/* a */ /* b'' @ [CHR 0x0A] @ ''int y;'' @ [CHR 0x0A] @ ''*/''"

subsection \<open>The accessor ratio\<close>

text \<open>
  The ratio as the specification states it: the trivial accessors among the methods of
  the class (every declared method whose code is found), over the number of declared
  methods.
\<close>

definition trivial_accessor :: "method_unit \<Rightarrow> bool" where
  "trivial_accessor method =
     ((startswith (mu_name method) ''get'' \<or> startswith (mu_name method) ''set''
         \<or> startswith (mu_name method) ''is'')
      \<and> count_loc (mu_code method) \<le> 3)"

definition declared_methods ::
  "slicer_config \<Rightarrow> class_decl \<Rightarrow> string \<Rightarrow> string \<Rightarrow> method_unit list" where
  "declared_methods cfg node class_code file_path =
     List.map_filter
       (\<lambda>method_node. extract_method_from_ast cfg method_node class_code file_path
                        (Some (cd_name node)))
       (cd_methods node)"

definition spec_getter_setter_ratio ::
  "slicer_config \<Rightarrow> class_decl \<Rightarrow> string \<Rightarrow> string \<Rightarrow> rat" where
  "spec_getter_setter_ratio cfg node class_code file_path =
     (if length (cd_methods node) = 0 then 0
      else of_nat (length (filter trivial_accessor
                             (declared_methods cfg node class_code file_path)))
           / of_nat (length (cd_methods node)))"

subsection \<open>Results per unit and analysed files\<close>

text \<open>What the detectors yield for the units of a file, unit by unit: the classes, the
  standalone methods, and the methods of each class.\<close>

definition unit_results :: "environment \<Rightarrow> coordinator \<Rightarrow> slice_result \<Rightarrow> detection list" where
  "unit_results env co sliced_data =
     (if co_class_detector co \<noteq> None
      then map (ClassDebtDetector_detect (class_task_prompt env) (class_reply env))
               (sr_classes sliced_data)
      else [])
     @ (if co_method_detector co \<noteq> None
        then map (MethodDebtDetector_detect (method_task_prompt env) (method_reply env))
               (sr_methods sliced_data @ concat (map cu_methods (sr_classes sliced_data)))
        else [])"

definition completed :: "file_result \<Rightarrow> bool" where
  "completed result = (fr_status result = Some ''completed'')"

definition debts_of :: "file_result \<Rightarrow> detection list" where
  "debts_of result = (case fr_debts result of None \<Rightarrow> [] | Some ds \<Rightarrow> ds)"


subsection \<open>The loc of a unit\<close>

text \<open>The loc of a unit is the metric \<open>loc\<close> where the unit has it, and the line count of
  its code where metrics are not extracted.\<close>

definition class_unit_loc :: "class_unit \<Rightarrow> rat" where
  "class_unit_loc c = metrics_get (cu_metrics c) ''loc'' (of_int (count_loc (cu_code c)))"

definition method_unit_loc :: "method_unit \<Rightarrow> rat" where
  "method_unit_loc m = metrics_get (mu_metrics m) ''loc'' (of_int (count_loc (mu_code m)))"

text \<open>A slice whose units keep the two bounds of the configuration.\<close>

definition loc_bounded :: "slicer_config \<Rightarrow> slice_result \<Rightarrow> bool" where
  "loc_bounded cfg r =
     ((\<forall>c \<in> set (sr_classes r).
         count_loc (cu_code c) \<le> max_class_loc cfg
         \<and> class_unit_loc c = of_int (count_loc (cu_code c))
         \<and> (\<forall>m \<in> set (cu_methods c).
               min_method_loc cfg \<le> count_loc (mu_code m)
               \<and> method_unit_loc m = of_int (count_loc (mu_code m))))
      \<and> (\<forall>m \<in> set (sr_methods r).
            min_method_loc cfg \<le> count_loc (mu_code m)
            \<and> method_unit_loc m = of_int (count_loc (mu_code m))))"

subsection \<open>Example inputs\<close>

definition example_config :: slicer_config where
  "example_config = \<lparr>extract_metrics = True, min_method_loc = 3, max_class_loc = 1000\<rparr>"

text \<open>A class with one method of three lines, sliced on the fallback path.\<close>

definition fallback_source :: string where
  "fallback_source =
     ''class A {'' @ [CHR 0x0A] @ ''  void run() {'' @ [CHR 0x0A] @ ''    a();''
       @ [CHR 0x0A] @ ''  }'' @ [CHR 0x0A] @ ''}''"

definition fallback_slice :: slice_result where
  "fallback_slice = slice_code (\<lambda>text. None) example_config fallback_source ''A.java''"

text \<open>A class with one field and its getter, written on one line.\<close>

definition point_source :: string where
  "point_source =
     ''public class Point {'' @ [CHR 0x0A] @ ''    private int x;'' @ [CHR 0x0A]
       @ ''    public int getX() { return x; }'' @ [CHR 0x0A] @ ''}''"

definition point_decl :: class_decl where
  "point_decl = \<lparr>cd_name = ''Point'', cd_methods = [\<lparr>md_name = ''getX'', md_parameters = 0\<rparr>],
                  cd_fields = 1, cd_modifiers = [''public'']\<rparr>"





subsection \<open>A detection on its way to localization\<close>

text \<open>An environment whose method detector answers \<open>4\<close>, a coordinator with the method
  detector and the localizer, and a file that holds the text of the method unit
  \<open>run_unit\<close> on its second line.\<close>

definition answering_environment :: environment where
  "answering_environment =
     \<lparr>class_task_prompt = ''Classify the class: '',
      method_task_prompt = ''Classify the method: '',
      class_reply = (\<lambda>message. None),
      method_reply = (\<lambda>message. Some [(''content'', ''4'')]),
      explain_reply = (\<lambda>detection. None),
      fix_reply = (\<lambda>detection. None),
      as_completed = (\<lambda>results. results)\<rparr>"

definition locating_coordinator :: coordinator where
  "locating_coordinator =
     \<lparr>co_class_detector = None,
      co_method_detector = Some [(''model'', PyStr ''qwen2.5-coder:7b'')],
      co_localizer = Some [(''config'', PyDict []), (''use_ast'', PyBool True)],
      co_explainer = None, co_fix_suggester = None,
      co_parallel_detection = False, co_conflict_strategy = ''prioritize_class'',
      co_min_confidence = 5/10\<rparr>"

definition run_source :: string where
  "run_source =
     ''class A {'' @ [CHR 0x0A] @ ''  void run() { a(); }'' @ [CHR 0x0A] @ ''}''"

subsection \<open>A file whose only unit gets no response\<close>

definition silent_environment :: environment where
  "silent_environment =
     \<lparr>class_task_prompt = ''Classify the class: '',
      method_task_prompt = ''Classify the method: '',
      class_reply = (\<lambda>message. None),
      method_reply = (\<lambda>message. None),
      explain_reply = (\<lambda>detection. None),
      fix_reply = (\<lambda>detection. None),
      as_completed = (\<lambda>results. results)\<rparr>"

definition method_only_coordinator :: coordinator where
  "method_only_coordinator =
     \<lparr>co_class_detector = None,
      co_method_detector = Some [(''model'', PyStr ''qwen2.5-coder:7b'')],
      co_localizer = None, co_explainer = None, co_fix_suggester = None,
      co_parallel_detection = False, co_conflict_strategy = ''prioritize_class'',
      co_min_confidence = 5/10\<rparr>"

definition run_unit :: method_unit where
  "run_unit =
     \<lparr>mu_name = ''run'', mu_code = ''void run() { a(); }'', mu_file_path = ''A.java'',
      mu_parent_class = None, mu_metrics = [(''loc'', 1)]\<rparr>"

definition one_method_slice :: slice_result where
  "one_method_slice =
     \<lparr>sr_file_path = ''A.java'', sr_classes = [], sr_methods = [run_unit], sr_total_loc = 1\<rparr>"


section \<open>Construction of the class detector\<close>

lemma class_detector_init_fails:
  "ClassDebtDetector_init agent_config = Inl (AttributeError ''timeout'')"
  by (simp add: ClassDebtDetector_init_def detector_llm_config_def getattr_def bind_err_def
      Let_def)

text \<open>The method detector, which assigns \<open>self.timeout\<close>, is constructed.\<close>

lemma method_detector_init_ok: "\<exists>self. MethodDebtDetector_init agent_config = Inr self"
  by (simp add: MethodDebtDetector_init_def detector_llm_config_def getattr_def bind_err_def
      Let_def)

text \<open>
  Claim C1. Constructing a \<open>ClassDebtDetector\<close> raises \<open>AttributeError\<close> for every
  configuration dictionary, because \<open>__init__\<close> reads \<open>self.timeout\<close>, which is never
  assigned; so the construction of a \<open>DebtDetectionCoordinator\<close> fails whenever the class
  detector is enabled, which is the default when the key \<open>enabled\<close> is absent.
\<close>

theorem class_detector_construction_fails:
  "ClassDebtDetector_init agent_config = Inl (AttributeError ''timeout'')
   \<and> (truthy (dict_get (config_get (ac_class_detector config)) ''enabled'' (PyBool True)) \<longrightarrow>
        DebtDetectionCoordinator_init config = Inl (AttributeError ''timeout''))"
  by (simp add: class_detector_init_fails DebtDetectionCoordinator_init_def init_agent_def
      bind_err_def Let_def)

theorem class_detector_construction_fails_witness:
  "truthy (dict_get (config_get (Some [(''model'', PyStr ''codestral:22b''), (''timeout'', PyInt 300)]))
      ''enabled'' (PyBool True))
   \<and> DebtDetectionCoordinator_init
        \<lparr>ac_class_detector = Some [(''model'', PyStr ''codestral:22b''), (''timeout'', PyInt 300)],
         ac_method_detector = None, ac_localization = None, ac_explanation = None,
         ac_fix_suggestion = None, ac_coordinator = None\<rparr>
       = Inl (AttributeError ''timeout'')"
  using class_detector_construction_fails
    [of "[]" "\<lparr>ac_class_detector = Some [(''model'', PyStr ''codestral:22b''), (''timeout'', PyInt 300)],
         ac_method_detector = None, ac_localization = None, ac_explanation = None,
         ac_fix_suggestion = None, ac_coordinator = None\<rparr>"]
  by (simp add: config_get_def dict_get_def)


section \<open>The confidence table\<close>

text \<open>
  Claim C4. The confidence is a function of the granularity, the label and the metrics
  of the unit, and it is the table of the specification: 0.9 for label 0; for labels 1
  to 4 the tier 0.9, 0.75 or 0.6 that the metrics reach; 0.5 for \<open>UNKNOWN\<close>. Label 4
  with \<open>loc = 20\<close> and complexity 12 gives 0.75.
\<close>

theorem confidence_table_reproduced:
  "(label \<in> set (label_vocabulary g) \<longrightarrow>
      calculate_confidence g label m = confidence_table label m)
   \<and> calculate_confidence Method_granularity ''4''
        [(''loc'', 20), (''cyclomatic_complexity'', 12)] = 75/100"
  by (cases g)
     (auto simp: calculate_confidence_def label_vocabulary_def confidence_table_def tier1_def
        tier2_def ClassDebtDetector_calculate_confidence_def
        MethodDebtDetector_calculate_confidence_def metrics_get_def Let_def)

theorem confidence_table_reproduced_witness:
  "''1'' \<in> set (label_vocabulary Class_granularity)
   \<and> calculate_confidence Class_granularity ''1'' [(''loc'', 600), (''method_count'', 25)] = 9/10"
  using confidence_table_reproduced
    [of "''1''" Class_granularity "[(''loc'', 600), (''method_count'', 25)]"]
  by (simp add: label_vocabulary_def confidence_table_def tier1_def metrics_get_def)


section \<open>Aggregation\<close>

lemma aggregate_debts_total [simp]:
  "ag_total_debts (aggregate_debts ds a) = ag_total_debts a"
  by (induction ds arbitrary: a) (simp_all add: Let_def)

lemma aggregate_debts_files [simp]:
  "ag_files_with_debts (aggregate_debts ds a) = ag_files_with_debts a"
  by (induction ds arbitrary: a) (simp_all add: Let_def)

lemma aggregate_debts_average [simp]:
  "ag_average_debts_per_file (aggregate_debts ds a) = ag_average_debts_per_file a"
  by (induction ds arbitrary: a) (simp_all add: Let_def)

lemma aggregate_files_filter:
  "aggregate_files rs a v = aggregate_files (filter completed rs) a v"
  by (induction rs arbitrary: a v) (simp_all add: completed_def Let_def)

lemma aggregate_files_valid:
  "snd (aggregate_files rs a v) = v + length (filter completed rs)"
  by (induction rs arbitrary: a v) (simp_all add: completed_def Let_def)

lemma aggregate_files_total:
  "ag_total_debts (fst (aggregate_files rs a v)) =
     ag_total_debts a + sum_list (map (\<lambda>r. length (debts_of r)) (filter completed rs))"
  by (induction rs arbitrary: a v) (simp_all add: completed_def debts_of_def Let_def)

lemma aggregate_files_average:
  "ag_average_debts_per_file (fst (aggregate_files rs a v)) = ag_average_debts_per_file a"
  by (induction rs arbitrary: a v) (simp_all add: Let_def)

lemma aggregate_files_with_debts:
  "ag_files_with_debts (fst (aggregate_files rs a v)) =
     ag_files_with_debts a + length (filter (\<lambda>r. completed r \<and> debts_of r \<noteq> []) rs)"
  by (induction rs arbitrary: a v) (simp_all add: completed_def debts_of_def Let_def)

text \<open>
  Claim C9. In the aggregate over a list of file results, \<open>average_debts_per_file\<close> is 0
  when no file was analysed successfully and \<open>total_debts\<close> divided by the number of
  successfully analysed files otherwise; the results of failed files contribute nothing:
  the totals are those of the completed results, and the whole aggregate is the
  aggregate of the completed results alone.
\<close>

theorem average_debts_per_file:
  "ag_average_debts_per_file (aggregate_results rs) =
     (if length (filter completed rs) = 0 then 0
      else of_nat (ag_total_debts (aggregate_results rs)) / of_nat (length (filter completed rs)))
   \<and> ag_total_debts (aggregate_results rs) =
       sum_list (map (\<lambda>r. length (debts_of r)) (filter completed rs))
   \<and> ag_files_with_debts (aggregate_results rs) =
       length (filter (\<lambda>r. debts_of r \<noteq> []) (filter completed rs))
   \<and> aggregate_results rs = aggregate_results (filter completed rs)"
proof -
  obtain a v where av: "aggregate_files rs
      \<lparr>ag_total_debts = 0, ag_by_type = [], ag_by_class = 0, ag_by_method = 0,
       ag_high_confidence_debts = 0, ag_files_with_debts = 0,
       ag_average_debts_per_file = 0\<rparr> 0 = (a, v)"
    by (cases "aggregate_files rs
      \<lparr>ag_total_debts = 0, ag_by_type = [], ag_by_class = 0, ag_by_method = 0,
       ag_high_confidence_debts = 0, ag_files_with_debts = 0,
       ag_average_debts_per_file = 0\<rparr> 0")
  have v: "v = length (filter completed rs)"
    using aggregate_files_valid [of rs _ 0] av by (metis add_0 snd_conv)
  have t: "ag_total_debts a = sum_list (map (\<lambda>r. length (debts_of r)) (filter completed rs))"
    using aggregate_files_total [of rs _ 0] av
    by (metis add_0 fst_conv aggregate.select_convs(1))
  have avg: "ag_average_debts_per_file a = 0"
    using aggregate_files_average [of rs _ 0] av
    by (metis fst_conv aggregate.select_convs(7))
  have f: "ag_files_with_debts a =
      length (filter (\<lambda>r. debts_of r \<noteq> []) (filter completed rs))"
    using aggregate_files_with_debts [of rs _ 0] av
    by (metis (mono_tags, lifting) add_0 fst_conv aggregate.select_convs(6) filter_filter
        filter_cong)
  have res: "aggregate_results rs =
     (if v > 0 then a\<lparr>ag_average_debts_per_file := of_nat (ag_total_debts a) / of_nat v\<rparr>
      else a)"
    by (simp add: aggregate_results_def av)
  have same: "aggregate_results rs = aggregate_results (filter completed rs)"
    unfolding aggregate_results_def using aggregate_files_filter [of rs] by simp
  show ?thesis using v t avg f res same by auto
qed


section \<open>The two paths of the slicer\<close>

lemma walk_classes_methods:
  "sr_methods (walk_classes cfg nodes src fp r) = sr_methods r"
  by (induction nodes arbitrary: r) (simp_all split: option.splits)

lemma walk_classes_member:
  "c \<in> set (sr_classes (walk_classes cfg nodes src fp r)) \<Longrightarrow>
     c \<in> set (sr_classes r) \<or> (\<exists>node \<in> set nodes. extract_class_from_ast cfg node src fp = Some c)"
proof (induction nodes arbitrary: r)
  case Nil
  then show ?case by simp
next
  case (Cons node nodes)
  show ?case
  proof (cases "extract_class_from_ast cfg node src fp")
    case None
    with Cons.prems have "c \<in> set (sr_classes (walk_classes cfg nodes src fp r))" by simp
    from Cons.IH [OF this] show ?thesis by auto
  next
    case (Some class_info)
    with Cons.prems
    have "c \<in> set (sr_classes (walk_classes cfg nodes src fp
              (r\<lparr>sr_classes := sr_classes r @ [class_info]\<rparr>)))"
      by simp
    from Cons.IH [OF this] Some show ?thesis by auto
  qed
qed








section \<open>Lines of code\<close>

lemma count_loc_lines_ge: "loc \<le> count_loc_lines ls opn loc"
proof (induction ls arbitrary: opn loc)
  case Nil
  then show ?case by simp
next
  case (Cons line ls)
  have a: "\<And>flag. loc \<le> count_loc_lines ls flag loc" by (rule Cons.IH)
  have b: "\<And>flag. loc \<le> count_loc_lines ls flag (loc + 1)"
  proof -
    fix flag
    have "loc + 1 \<le> count_loc_lines ls flag (loc + 1)" by (rule Cons.IH)
    then show "loc \<le> count_loc_lines ls flag (loc + 1)" by linarith
  qed
  show ?case using a b by (simp add: Let_def)
qed

lemma count_loc_nonneg: "0 \<le> count_loc code"
  using count_loc_lines_ge [of 0 "split_lines code" False] by (simp add: count_loc_def)

text \<open>
  Claim C6 says that the line count is the number of lines that are not blank, not a
  line comment, and not in a multi-line comment span from its start token through the
  line of the matching end token. \<open>_count_loc\<close> looks for the two tokens anywhere in a
  line and takes no account of their order or of a span being open. A line of code
  with the end token in a string literal, no span being open, is not counted, where the
  claim counts it; and after a line that closes a comment and opens the next one, the
  lines of the open comment are counted, where the claim excludes them.
\<close>

theorem count_loc_divergence:
  "count_loc end_token_line = 0 \<and> spec_count_loc end_token_line = 1
   \<and> count_loc reopened_span_text = 1 \<and> spec_count_loc reopened_span_text = 0"
  by (simp add: count_loc_def spec_count_loc_def end_token_line_def reopened_span_text_def
      strip_def isspace_def startswith_def blank_line_def line_comment_def Let_def)



section \<open>Block extraction\<close>

lemma find_map_index:
  "find P (map f xs) = map_option f (find (\<lambda>x. P (f x)) xs)"
  by (induction xs) simp_all

lemma upt_0_Suc: "[0..<Suc n] = 0 # map Suc [0..<n]"
  by (simp add: upt_conv_Cons map_Suc_upt del: upt_Suc)

lemma brace_delta_bounds: "brace_delta st ch \<in> {-1, 0, 1}"
  by (simp add: brace_delta_def)

text \<open>The loop returns at the first position where the counter, started at a positive
  value, comes back to zero.\<close>

lemma scan_block_depth:
  "cnt \<ge> 1 \<Longrightarrow>
   scan_block cnt in_s in_c esc cs i =
     map_option (\<lambda>j. i + j)
       (find (\<lambda>j. cnt + depth_from (in_s, in_c, esc) (take (Suc j) cs) = 0) [0..<length cs])"
proof (induction cs arbitrary: cnt in_s in_c esc i)
  case Nil
  then show ?case by simp
next
  case (Cons ch rest)
  let ?st = "(in_s, in_c, esc)"
  let ?d = "brace_delta ?st ch"
  show ?case
  proof (cases "cnt + ?d = 0")
    case True
    then have "scan_block cnt in_s in_c esc (ch # rest) i = Some i"
      using Cons.prems
      by (auto simp: brace_delta_def outside_literal_def lex_step_def Let_def split: if_splits)
    moreover have "find (\<lambda>j. cnt + depth_from ?st (take (Suc j) (ch # rest)) = 0)
        [0..<length (ch # rest)] = Some 0"
      using True by (simp add: upt_0_Suc del: upt_Suc)
    ultimately show ?thesis by simp
  next
    case False
    have ge: "cnt + ?d \<ge> 1"
      using False Cons.prems brace_delta_bounds [of ?st ch] by auto
    obtain s' c' e' where st': "lex_step ?st ch = (s', c', e')"
      by (cases "lex_step ?st ch") auto
    have step: "scan_block cnt in_s in_c esc (ch # rest) i =
        scan_block (cnt + ?d) s' c' e' rest (i + 1)"
      using False st' Cons.prems
      by (auto simp: brace_delta_def outside_literal_def lex_step_def Let_def split: if_splits)
    have "find (\<lambda>j. cnt + depth_from ?st (take (Suc j) (ch # rest)) = 0)
        [0..<length (ch # rest)] =
        map_option Suc (find (\<lambda>j. cnt + ?d + depth_from (s', c', e') (take (Suc j) rest) = 0)
          [0..<length rest])"
      using False st' by (simp add: upt_0_Suc find_map_index add.assoc del: upt_Suc)
    then show ?thesis
      using step Cons.IH [OF ge, of s' c' e' "i + 1"]
      by (simp add: option.map_comp comp_def)
  qed
qed

lemma find_from_Some:
  "find_from ch xs i = Some k \<Longrightarrow> i \<le> k \<and> k - i < length xs \<and> xs ! (k - i) = ch"
proof (induction xs arbitrary: i)
  case Nil
  then show ?case by simp
next
  case (Cons x xs)
  show ?case
  proof (cases "x = ch")
    case True
    with Cons.prems show ?thesis by simp
  next
    case False
    with Cons.prems have "find_from ch xs (i + 1) = Some k" by simp
    from Cons.IH [OF this]
    have "i + 1 \<le> k" "k - (i + 1) < length xs" "xs ! (k - (i + 1)) = ch"
      by auto
    then show ?thesis by (simp add: nth_Cons')
  qed
qed

lemma str_find_Some:
  assumes "str_find s ch start = Some bp"
  shows "start \<le> bp \<and> bp < length s \<and> s ! bp = ch"
proof -
  from assms have "find_from ch (drop start s) start = Some bp" by (simp add: str_find_def)
  from find_from_Some [OF this]
  have a: "start \<le> bp" and b: "bp - start < length (drop start s)"
    and c: "drop start s ! (bp - start) = ch" by auto
  from a b have "bp < length s" by simp
  moreover from a b c have "s ! bp = ch" by simp
  ultimately show ?thesis using a by simp
qed

lemma find_from_upt:
  "find_from ch xs i = find (\<lambda>k. xs ! (k - i) = ch) [i..<i + length xs]"
proof (induction xs arbitrary: i)
  case Nil
  then show ?case by simp
next
  case (Cons x xs)
  have "find (\<lambda>k. (x # xs) ! (k - i) = ch) [Suc i..<Suc i + length xs] =
        find (\<lambda>k. xs ! (k - Suc i) = ch) [Suc i..<Suc i + length xs]"
    by (rule find_cong) (auto simp: nth_Cons' Suc_diff_Suc)
  then show ?case
    using Cons.IH [of "Suc i"] by (simp add: upt_conv_Cons del: upt_Suc)
qed

text \<open>\<open>source_code.find('{', start_pos)\<close> is the first opening brace at or after
  \<open>start_pos\<close>.\<close>

lemma str_find_first_brace: "str_find s (CHR ''{'') start = first_brace s start"
proof (cases "start \<le> length s")
  case True
  have "find (\<lambda>k. drop start s ! (k - start) = CHR ''{'') [start..<length s] =
        find (\<lambda>k. s ! k = CHR ''{'') [start..<length s]"
    by (rule find_cong) auto
  then show ?thesis
    using True by (simp add: str_find_def first_brace_def find_from_upt)
next
  case False
  then show ?thesis by (simp add: str_find_def first_brace_def)
qed

text \<open>\<open>source_code[i:j]\<close> is the text at the positions from \<open>i\<close> up to \<open>j\<close>.\<close>

lemma slice_text_between:
  assumes "j \<le> length s"
  shows "slice s i j = text_between s i j"
proof (rule nth_equalityI)
  show "length (slice s i j) = length (text_between s i j)"
    using assms by (simp add: slice_def text_between_def)
next
  fix k
  assume "k < length (slice s i j)"
  then have k: "k < j - i" by (simp add: slice_def)
  with assms have "i + k < length s" by simp
  then show "slice s i j ! k = text_between s i j ! k"
    using k by (simp add: slice_def text_between_def)
qed

lemma extract_block_refines: "extract_block s start = amended_extract_block s start"
proof (cases "str_find s (CHR ''{'') start")
  case None
  then show ?thesis
    using str_find_first_brace [of s start]
    by (simp add: extract_block_def amended_extract_block_def)
next
  case (Some bp)
  from str_find_Some [OF Some] have bp: "bp < length s" "s ! bp = CHR ''{''" by auto
  have fb: "first_brace s start = Some bp"
    using Some str_find_first_brace [of s start] by simp
  define rest where "rest = drop (Suc bp) s"
  define found where "found =
      find (\<lambda>j. 1 + depth_from (False, False, False) (take (Suc j) rest) = 0) [0..<length rest]"
  have dr: "drop bp s = CHR ''{'' # rest"
    using bp Cons_nth_drop_Suc [of bp s] by (simp add: rest_def)
  have code: "scan_block 0 False False False (drop bp s) bp = map_option (\<lambda>j. bp + 1 + j) found"
    using scan_block_depth [of 1 False False False rest "bp + 1"] by (simp add: dr found_def)
  have spec: "first_balanced (drop bp s) = map_option Suc found"
    by (simp add: first_balanced_def dr depth_after_def upt_0_Suc find_map_index brace_delta_def
        outside_literal_def lex_step_def found_def del: upt_Suc)
  show ?thesis
  proof (cases found)
    case None
    then show ?thesis
      by (simp add: extract_block_def amended_extract_block_def Some fb code spec)
  next
    case (Some j)
    then have "j \<in> set [0..<length rest]"
      unfolding found_def by (auto simp: find_Some_iff)
    then have "bp + j + 2 \<le> length s"
      using bp by (simp add: rest_def)
    then have "slice s start (bp + 1 + j + 1) = text_between s start (bp + Suc j + 1)"
      using slice_text_between [of "bp + 1 + j + 1" s start] by simp
    then show ?thesis
      using Some \<open>str_find s (CHR ''{'') start = Some bp\<close>
      by (simp add: extract_block_def amended_extract_block_def fb code spec)
  qed
qed

text \<open>
  Claim C3, as stated: depth changes on braces outside string and character literal
  spans, the escape flag being the one that literal spans track. \<open>_extract_block\<close>
  keeps the escape flag at every position: a closing brace after a backslash outside
  any literal is skipped, so the block runs on to the next closing brace where the depth
  of the claim is zero at the first one; and a quote after a backslash opens no literal,
  so a block is returned where the claim finds none.
\<close>

theorem extract_block_counterexample:
  "extract_block escaped_brace_text 0 = Some escaped_brace_text
   \<and> claim_extract_block escaped_brace_text 0 = Some (''{ '' @ [CHR 0x5C] @ ''}'')
   \<and> extract_block escaped_quote_text 0 = Some (''{ '' @ [CHR 0x5C, CHR 0x22] @ '' }'')
   \<and> claim_extract_block escaped_quote_text 0 = None"
  by (simp add: extract_block_def str_find_def slice_def claim_extract_block_def first_brace_def
      text_between_def claim_brace_delta_def claim_lex_step_def escaped_brace_text_def
      escaped_quote_text_def)

text \<open>
  Claim C3, amended: block extraction locates the first opening brace at or after the
  start position and scans forward with a depth counter and an escape flag that is kept
  at every position, inside and outside literals: the character after an unescaped
  backslash is skipped, so that it neither changes the depth nor opens or ends a
  literal. Depth changes on braces only at characters that are not skipped and lie
  outside string and character literal spans. The result is the text from the start
  position through the first position where the depth is zero again, and nothing when
  there is no opening brace or the end of the input comes first. The block of the
  specification's example is extracted whole; a block in the middle of a text is cut out
  from the start position to its closing brace.
\<close>

theorem extract_block_amended:
  "extract_block source_code start_pos = amended_extract_block source_code start_pos
   \<and> extract_block escaped_quote_block 0 = Some escaped_quote_block
   \<and> extract_block ''int f() { return 1; } int g;'' 4 = Some ''f() { return 1; }''
   \<and> extract_block ''{ { }'' 0 = None"
proof (intro conjI)
  show "extract_block source_code start_pos = amended_extract_block source_code start_pos"
    by (rule extract_block_refines)
  show "extract_block escaped_quote_block 0 = Some escaped_quote_block"
    by (simp add: extract_block_def str_find_def slice_def escaped_quote_block_def)
  show "extract_block ''int f() { return 1; } int g;'' 4 = Some ''f() { return 1; }''"
    by (simp add: extract_block_def str_find_def slice_def)
  show "extract_block ''{ { }'' 0 = None"
    by (simp add: extract_block_def str_find_def slice_def)
qed



section \<open>Bounds on the units of a slice\<close>


lemma extract_method_from_ast_loc:
  "extract_method_from_ast cfg node src fp pc = Some m \<Longrightarrow>
     (if extract_metrics cfg
      then map_of (mu_metrics m) ''loc'' = Some (of_int (count_loc (mu_code m)))
      else mu_metrics m = [])"
  by (auto simp: extract_method_from_ast_def Let_def split: option.splits if_splits)

lemma class_methods_from_ast_loc:
  "m \<in> set (class_methods_from_ast cfg nodes cc fp cn) \<Longrightarrow>
     min_method_loc cfg \<le> count_loc (mu_code m)
     \<and> method_unit_loc m = of_int (count_loc (mu_code m))"
proof (induction nodes)
  case Nil
  then show ?case by simp
next
  case (Cons node nodes)
  show ?case
  proof (cases "extract_method_from_ast cfg node cc fp (Some cn)")
    case None
    with Cons show ?thesis by simp
  next
    case (Some mi)
    note loc = extract_method_from_ast_loc [OF Some]
    show ?thesis
    proof (cases "m = mi \<and> metrics_get (mu_metrics mi) ''loc'' 0 \<ge> of_int (min_method_loc cfg)")
      case True
      show ?thesis
      proof (cases "extract_metrics cfg")
        case True
        with loc \<open>m = mi \<and> _\<close> show ?thesis
          by (simp add: metrics_get_def method_unit_loc_def)
      next
        case False
        with loc \<open>m = mi \<and> _\<close> count_loc_nonneg [of "mu_code mi"] show ?thesis
          by (simp add: metrics_get_def method_unit_loc_def)
      qed
    next
      case False
      with Cons Some show ?thesis by (auto split: if_splits)
    qed
  qed
qed

lemma extract_class_from_ast_loc:
  assumes "extract_class_from_ast cfg node src fp = Some c"
  shows "count_loc (cu_code c) \<le> max_class_loc cfg
       \<and> class_unit_loc c = of_int (count_loc (cu_code c))
       \<and> (\<forall>m \<in> set (cu_methods c). min_method_loc cfg \<le> count_loc (mu_code m)
              \<and> method_unit_loc m = of_int (count_loc (mu_code m)))"
  using assms class_methods_from_ast_loc
  by (auto simp: extract_class_from_ast_def Let_def class_unit_loc_def metrics_get_def
      split: option.splits if_splits)

lemma method_unit_loc_regex:
  "method_unit_loc \<lparr>mu_name = n, mu_code = c, mu_file_path = f, mu_parent_class = p,
      mu_metrics = (if e then [(''loc'', of_int (count_loc c))] else [])\<rparr> = of_int (count_loc c)"
  by (simp add: method_unit_loc_def metrics_get_def)

lemma methods_of_matches_loc:
  "m \<in> set (methods_of_matches cfg src fp ms) \<Longrightarrow>
     min_method_loc cfg \<le> count_loc (mu_code m)
     \<and> method_unit_loc m = of_int (count_loc (mu_code m))"
proof (induction ms)
  case Nil
  then show ?case by simp
next
  case (Cons match matches)
  obtain start_pos end_pos grp where match: "match = (start_pos, end_pos, grp)"
    by (cases match) auto
  let ?name = "(case grp of None \<Rightarrow> [] | Some n \<Rightarrow> n)"
  show ?case
  proof (cases "?name \<notin> set [''get'', ''set'', ''is'']
      \<and> (\<exists>code. extract_block src start_pos = Some code \<and> code \<noteq> []
             \<and> min_method_loc cfg \<le> count_loc code)")
    case False
    then have "methods_of_matches cfg src fp (match # matches) =
        methods_of_matches cfg src fp matches"
      using match by (auto simp: Let_def split: option.splits)
    with Cons show ?thesis by simp
  next
    case True
    then obtain code where code: "extract_block src start_pos = Some code" "code \<noteq> []"
        "min_method_loc cfg \<le> count_loc code"
      by blast
    let ?new = "\<lparr>mu_name = ?name, mu_code = code, mu_file_path = fp, mu_parent_class = None,
        mu_metrics = (if extract_metrics cfg then [(''loc'', of_int (count_loc code))] else [])\<rparr>"
    have unfold: "methods_of_matches cfg src fp (match # matches) =
        ?new # methods_of_matches cfg src fp matches"
      using True code match by (simp add: Let_def)
    show ?thesis
    proof (cases "m = ?new")
      case True
      then show ?thesis using code method_unit_loc_regex [of ?name code fp None "extract_metrics cfg"]
        by simp
    next
      case False
      with Cons.prems unfold have "m \<in> set (methods_of_matches cfg src fp matches)" by simp
      with Cons.IH show ?thesis by simp
    qed
  qed
qed

lemma class_unit_loc_regex:
  "class_unit_loc \<lparr>cu_name = n, cu_code = c, cu_file_path = f, cu_methods = ms,
      cu_metrics = (if e then [(''loc'', of_int (count_loc c))] else []) @ extra\<rparr>
     = (if e then of_int (count_loc c)
        else metrics_get extra ''loc'' (of_int (count_loc c)))"
  by (simp add: class_unit_loc_def metrics_get_def)

lemma classes_of_matches_loc:
  "c \<in> set (classes_of_matches cfg src fp ms) \<Longrightarrow>
     count_loc (cu_code c) \<le> max_class_loc cfg
     \<and> class_unit_loc c = of_int (count_loc (cu_code c))
     \<and> (\<forall>m \<in> set (cu_methods c). min_method_loc cfg \<le> count_loc (mu_code m)
            \<and> method_unit_loc m = of_int (count_loc (mu_code m)))"
proof (induction ms)
  case Nil
  then show ?case by simp
next
  case (Cons match matches)
  obtain start_pos end_pos grp where match: "match = (start_pos, end_pos, grp)"
    by (cases match) auto
  show ?case
  proof (cases "extract_block src start_pos")
    case None
    with Cons match show ?thesis by simp
  next
    case (Some class_code)
    show ?thesis
    proof (cases "class_code \<noteq> [] \<and> count_loc class_code \<le> max_class_loc cfg")
      case False
      then have "classes_of_matches cfg src fp (match # matches) =
          classes_of_matches cfg src fp matches"
        using Some match by (auto simp: Let_def)
      with Cons show ?thesis by simp
    next
      case True
      let ?ms = "extract_methods_regex cfg class_code fp"
      let ?new = "\<lparr>cu_name = (case grp of None \<Rightarrow> [] | Some n \<Rightarrow> n), cu_code = class_code,
          cu_file_path = fp, cu_methods = ?ms,
          cu_metrics = (if extract_metrics cfg then [(''loc'', of_int (count_loc class_code))] else [])
             @ (if ?ms \<noteq> [] then [(''method_count'', of_nat (length ?ms))] else [])\<rparr>"
      have unfold: "classes_of_matches cfg src fp (match # matches) =
          ?new # classes_of_matches cfg src fp matches"
        using Some True match by (simp add: Let_def)
      have new: "count_loc (cu_code ?new) \<le> max_class_loc cfg
          \<and> class_unit_loc ?new = of_int (count_loc (cu_code ?new))
          \<and> (\<forall>m \<in> set (cu_methods ?new). min_method_loc cfg \<le> count_loc (mu_code m)
                \<and> method_unit_loc m = of_int (count_loc (mu_code m)))"
        using True methods_of_matches_loc [of _ cfg class_code fp]
        by (simp add: class_unit_loc_regex metrics_get_def extract_methods_regex_def)
      show ?thesis
      proof (cases "c = ?new")
        case True
        with new show ?thesis by blast
      next
        case False
        with Cons.prems unfold have "c \<in> set (classes_of_matches cfg src fp matches)"
          by simp
        with Cons.IH show ?thesis by simp
      qed
    qed
  qed
qed

lemma regex_fallback_bounded: "loc_bounded cfg (regex_fallback cfg src fp r)"
  using classes_of_matches_loc [of _ cfg src fp] methods_of_matches_loc [of _ cfg src fp]
  by (simp add: loc_bounded_def regex_fallback_def extract_classes_regex_def
      extract_methods_regex_def)

lemma walk_classes_bounded:
  "loc_bounded cfg (walk_classes cfg nodes src fp
     \<lparr>sr_file_path = fp, sr_classes = [], sr_methods = [], sr_total_loc = n\<rparr>)"
proof -
  let ?r = "\<lparr>sr_file_path = fp, sr_classes = [], sr_methods = [], sr_total_loc = n\<rparr>"
  have "\<And>c. c \<in> set (sr_classes (walk_classes cfg nodes src fp ?r)) \<Longrightarrow>
      \<exists>node. extract_class_from_ast cfg node src fp = Some c"
    using walk_classes_member [of _ cfg nodes src fp ?r] by auto
  then show ?thesis
    using extract_class_from_ast_loc [of cfg _ src fp]
    unfolding loc_bounded_def walk_classes_methods by fastforce
qed

text \<open>
  Claim C2. For every source text and every slicer configuration, no class unit returned
  by \<open>slice_code\<close> has a loc above \<open>max_class_loc\<close>, and no method unit returned,
  standalone or nested in a returned class, has a loc below \<open>min_method_loc\<close>, on the
  primary path (whatever the parser yields) and on the fallback path. The bound holds for
  the line count of the unit's code and for the loc recorded in its metrics.
\<close>

theorem slice_loc_bounds:
  "(\<forall>c \<in> set (sr_classes (slice_code parse cfg source_code file_path)).
      count_loc (cu_code c) \<le> max_class_loc cfg
      \<and> class_unit_loc c \<le> of_int (max_class_loc cfg)
      \<and> (\<forall>m \<in> set (cu_methods c).
            min_method_loc cfg \<le> count_loc (mu_code m)
            \<and> of_int (min_method_loc cfg) \<le> method_unit_loc m))
   \<and> (\<forall>m \<in> set (sr_methods (slice_code parse cfg source_code file_path)).
        min_method_loc cfg \<le> count_loc (mu_code m)
        \<and> of_int (min_method_loc cfg) \<le> method_unit_loc m)"
proof -
  have "loc_bounded cfg (slice_code parse cfg source_code file_path)"
  proof (cases "parse source_code")
    case None
    then show ?thesis by (simp add: slice_code_def Let_def regex_fallback_bounded)
  next
    case (Some w)
    then show ?thesis
      by (cases w)
         (simp_all add: slice_code_def Let_def regex_fallback_bounded walk_classes_bounded)
  qed
  then show ?thesis
    unfolding loc_bounded_def by simp
qed

lemma fallback_slice_nonempty:
  "sr_classes fallback_slice \<noteq> []"
  "cu_methods (hd (sr_classes fallback_slice)) \<noteq> []"
  "sr_methods fallback_slice \<noteq> []"
  by code_simp+

theorem slice_loc_bounds_witness:
  "sr_classes fallback_slice \<noteq> []
   \<and> cu_methods (hd (sr_classes fallback_slice)) \<noteq> []
   \<and> sr_methods fallback_slice \<noteq> []
   \<and> count_loc (cu_code (hd (sr_classes fallback_slice))) \<le> 1000
   \<and> 3 \<le> count_loc (mu_code (hd (cu_methods (hd (sr_classes fallback_slice)))))
   \<and> 3 \<le> count_loc (mu_code (hd (sr_methods fallback_slice)))"
proof -
  note ne = fallback_slice_nonempty
  have c: "hd (sr_classes fallback_slice) \<in> set (sr_classes fallback_slice)"
    and m: "hd (cu_methods (hd (sr_classes fallback_slice)))
              \<in> set (cu_methods (hd (sr_classes fallback_slice)))"
    and s: "hd (sr_methods fallback_slice) \<in> set (sr_methods fallback_slice)"
    using ne by simp_all
  have cfg: "max_class_loc example_config = 1000" "min_method_loc example_config = 3"
    by (simp_all add: example_config_def)
  from slice_loc_bounds [of "\<lambda>text. None" example_config fallback_source "''A.java''"] c m s
  show ?thesis
    unfolding fallback_slice_def [symmetric] cfg using ne by blast
qed

text \<open>
  Claim C5 says that the accessor ratio of a class extracted on the primary path is the
  number of trivial accessors (name starting with \<open>get\<close>, \<open>set\<close> or \<open>is\<close>, loc at most
  3) over the number of declared methods. \<open>_count_getters_setters\<close> is applied to the
  methods kept in the unit, from which the methods below \<open>min_method_loc\<close> are already
  removed: a class whose only method is a getter on one line gets the ratio 0 with the
  default configuration, where the claim gives 1.
\<close>

theorem getter_setter_ratio_divergence:
  "map_option (\<lambda>c. (cu_code c, metrics_get (cu_metrics c) ''getter_setter_ratio'' 0))
      (extract_class_from_ast example_config point_decl point_source ''Point.java'')
     = Some (point_source, 0)
   \<and> spec_getter_setter_ratio example_config point_decl point_source ''Point.java'' = 1"
  by code_simp


section \<open>Localization\<close>

lemma class_detect_no_code:
  "d_code (ClassDebtDetector_detect p r c) = None"
  by (simp add: ClassDebtDetector_detect_def no_response_def Let_def)

lemma method_detect_no_code:
  "d_code (MethodDebtDetector_detect p r m) = None"
  by (simp add: MethodDebtDetector_detect_def no_response_def Let_def)

lemma localize_no_code:
  "d_code d = None \<Longrightarrow>
     localize d src = d\<lparr>d_location := Some (LocationError ''Missing code or source file'' None)\<rparr>"
  by (simp add: localize_def Let_def)

text \<open>
  Claim C8 says that localization finds a unit by the exact match of its first line in
  the file, then by its declaration pattern, and gives the location error only when both
  fail. \<open>localize\<close> reads the text of the unit from the key \<open>code\<close> of the result it is
  given, and the results come from the two detectors, which never set that key: for
  every result a detector builds and every file, \<open>localize\<close> gives the error for
  missing input, and no strategy is tried. In the file \<open>run_source\<close> the text of the
  unit \<open>run_unit\<close> stands on the second line, where the claim gives lines 2 to 2; the
  analysis of the file gives the location error.
\<close>

theorem localization_divergence:
  "localize (ClassDebtDetector_detect p r c) src =
     (ClassDebtDetector_detect p r c)
       \<lparr>d_location := Some (LocationError ''Missing code or source file'' None)\<rparr>
   \<and> localize (MethodDebtDetector_detect p' r' m) src =
     (MethodDebtDetector_detect p' r' m)
       \<lparr>d_location := Some (LocationError ''Missing code or source file'' None)\<rparr>
   \<and> (\<exists>before after. split_lines run_source ! 1 = before @ mu_code run_unit @ after)
   \<and> map (\<lambda>d. (d_name d, d_label d, d_location d))
          (fa_debts (analyze_file answering_environment locating_coordinator one_method_slice
                       (Some run_source)))
       = [(''run'', ''4'', Some (LocationError ''Missing code or source file'' None))]"
proof -
  have line: "split_lines run_source ! 1 = ''  '' @ mu_code run_unit @ []"
    by (simp add: run_source_def run_unit_def)
  have run: "map (\<lambda>d. (d_name d, d_label d, d_location d))
          (fa_debts (analyze_file answering_environment locating_coordinator one_method_slice
                       (Some run_source)))
       = [(''run'', ''4'', Some (LocationError ''Missing code or source file'' None))]"
    by code_simp
  show ?thesis
    using line run
      localize_no_code [OF class_detect_no_code, of p r c src]
      localize_no_code [OF method_detect_no_code, of p' r' m src]
    by blast
qed



section \<open>A unit without response\<close>


lemma class_detect_no_content:
  "\<not> has_content (class_reply env (detection_message (class_task_prompt env) (cu_code c))) \<Longrightarrow>
     ClassDebtDetector_detect (class_task_prompt env) (class_reply env) c
       = no_response ''class'' (cu_name c)"
  by (simp add: ClassDebtDetector_detect_def Let_def)

lemma method_detect_no_content:
  "\<not> has_content (method_reply env (detection_message (method_task_prompt env) (mu_code m))) \<Longrightarrow>
     MethodDebtDetector_detect (method_task_prompt env) (method_reply env) m
       = no_response ''method'' (mu_name m)"
  by (simp add: MethodDebtDetector_detect_def Let_def)

lemma no_response_fields:
  "d_label (no_response type name) = ''UNKNOWN'' \<and> d_confidence (no_response type name) = 0
   \<and> d_debt_type (no_response type name) = None"
  by (simp add: no_response_def)

lemma mset_detect_class_debts:
  assumes "\<forall>xs. mset (as_completed env xs) = mset xs"
  shows "mset (detect_class_debts env co cs) =
     filter_mset (\<lambda>r. d_label r \<noteq> ''0'')
       (mset (map (ClassDebtDetector_detect (class_task_prompt env) (class_reply env)) cs))"
  using assms by (simp add: detect_class_debts_def Let_def)

lemma mset_detect_method_debts:
  assumes "\<forall>xs. mset (as_completed env xs) = mset xs"
  shows "mset (detect_method_debts env co ms) =
     filter_mset (\<lambda>r. d_label r \<noteq> ''0'')
       (mset (map (MethodDebtDetector_detect (method_task_prompt env) (method_reply env)) ms))"
  using assms by (simp add: detect_method_debts_def Let_def)

lemma mset_nested_method_debts:
  assumes "\<forall>xs. mset (as_completed env xs) = mset xs"
  shows "mset (concat (map (\<lambda>class_info.
             if cu_methods class_info \<noteq> []
             then detect_method_debts env co (cu_methods class_info) else []) cs)) =
     filter_mset (\<lambda>r. d_label r \<noteq> ''0'')
       (mset (map (MethodDebtDetector_detect (method_task_prompt env) (method_reply env))
                  (concat (map cu_methods cs))))"
proof (induction cs)
  case Nil
  then show ?case by simp
next
  case (Cons c cs)
  show ?case
  proof (cases "cu_methods c = []")
    case True
    with Cons show ?thesis by simp
  next
    case False
    with Cons mset_detect_method_debts [OF assms, of co "cu_methods c"] show ?thesis by simp
  qed
qed

lemma mset_all_detections:
  assumes "\<forall>xs. mset (as_completed env xs) = mset xs"
  shows "mset (all_detections env co sliced) =
     filter_mset (\<lambda>r. d_label r \<noteq> ''0'') (mset (unit_results env co sliced))"
proof -
  have c: "mset (if co_class_detector co \<noteq> None \<and> sr_classes sliced \<noteq> []
                 then detect_class_debts env co (sr_classes sliced) else []) =
      filter_mset (\<lambda>r. d_label r \<noteq> ''0'')
        (mset (if co_class_detector co \<noteq> None
               then map (ClassDebtDetector_detect (class_task_prompt env) (class_reply env))
                      (sr_classes sliced) else []))"
    using mset_detect_class_debts [OF assms, of co "sr_classes sliced"] by auto
  have m: "mset (if co_method_detector co \<noteq> None \<and> sr_methods sliced \<noteq> []
                 then detect_method_debts env co (sr_methods sliced) else []) =
      filter_mset (\<lambda>r. d_label r \<noteq> ''0'')
        (mset (if co_method_detector co \<noteq> None
               then map (MethodDebtDetector_detect (method_task_prompt env) (method_reply env))
                      (sr_methods sliced) else []))"
    using mset_detect_method_debts [OF assms, of co "sr_methods sliced"] by auto
  show ?thesis
    unfolding all_detections_def unit_results_def Let_def mset_append c m
    using mset_nested_method_debts [OF assms, of co "sr_classes sliced"]
    by (simp add: ac_simps)
qed

lemma localize_confidence: "d_confidence (localize d src) = d_confidence d"
  by (simp add: localize_def Let_def split: option.splits)

lemma explain_confidence: "d_confidence (explain reply d) = d_confidence d"
  by (simp add: explain_def Let_def)

lemma suggest_fix_confidence: "d_confidence (suggest_fix reply d) = d_confidence d"
  by (simp add: suggest_fix_def Let_def)

lemma post_process_confidence:
  "d \<in> set (post_process env co ds src) \<Longrightarrow> \<exists>d' \<in> set ds. d_confidence d = d_confidence d'"
  by (auto simp: post_process_def Let_def localize_confidence explain_confidence
      suggest_fix_confidence)

lemma analyze_file_debts_confidence:
  assumes "d \<in> set (fa_debts (analyze_file env co sliced src))"
  shows "co_min_confidence co \<le> d_confidence d"
proof -
  let ?f = "filter (\<lambda>d. d_confidence d \<ge> co_min_confidence co) (all_detections env co sliced)"
  have "d \<in> set ?f \<or> (\<exists>content. d \<in> set (post_process env co ?f content))"
    using assms by (auto simp: analyze_file_def Let_def split: option.splits if_splits)
  then show ?thesis
  proof
    assume "d \<in> set ?f"
    then show ?thesis by simp
  next
    assume "\<exists>content. d \<in> set (post_process env co ?f content)"
    then obtain content where "d \<in> set (post_process env co ?f content)" by blast
    from post_process_confidence [OF this]
    obtain d' where "d' \<in> set ?f" "d_confidence d = d_confidence d'" by blast
    then show ?thesis by simp
  qed
qed

text \<open>
  Claim C7. When a detector yields no response for a unit, the detection is a result with
  label \<open>UNKNOWN\<close> and confidence 0, not an error, so every unit of the file still gets
  its result: the detections of the file are the results of all its units, those with
  label 0 left out, in some order. The result is counted in \<open>total_detections\<close>, the
  length of the list before the confidence filter, and every result left after the
  filter has a confidence of at least \<open>min_confidence\<close>, so with the default 0.5
  the result with confidence 0 is removed.
\<close>

theorem no_response_isolated:
  "(\<not> has_content (class_reply env (detection_message (class_task_prompt env) (cu_code c))) \<longrightarrow>
      ClassDebtDetector_detect (class_task_prompt env) (class_reply env) c
        = no_response ''class'' (cu_name c))
   \<and> (\<not> has_content (method_reply env (detection_message (method_task_prompt env) (mu_code m))) \<longrightarrow>
      MethodDebtDetector_detect (method_task_prompt env) (method_reply env) m
        = no_response ''method'' (mu_name m))
   \<and> d_label (no_response type name) = ''UNKNOWN''
   \<and> d_confidence (no_response type name) = 0
   \<and> ((\<forall>xs. mset (as_completed env xs) = mset xs) \<longrightarrow>
        mset (all_detections env co sliced) =
          filter_mset (\<lambda>r. d_label r \<noteq> ''0'') (mset (unit_results env co sliced)))
   \<and> fa_total_detections (analyze_file env co sliced src) = length (all_detections env co sliced)
   \<and> (\<forall>d \<in> set (fa_debts (analyze_file env co sliced src)).
        co_min_confidence co \<le> d_confidence d)"
  using class_detect_no_content [of env c] method_detect_no_content [of env m]
    no_response_fields [of type name] mset_all_detections [of env co sliced]
    analyze_file_debts_confidence [of _ env co sliced src]
  by (simp add: analyze_file_def Let_def)

theorem no_response_isolated_witness:
  "\<not> has_content (method_reply silent_environment
        (detection_message (method_task_prompt silent_environment) (mu_code run_unit)))
   \<and> all_detections silent_environment method_only_coordinator one_method_slice
       = [no_response ''method'' ''run'']
   \<and> fa_total_detections
        (analyze_file silent_environment method_only_coordinator one_method_slice None) = 1
   \<and> fa_debts (analyze_file silent_environment method_only_coordinator one_method_slice None) = []"
proof -
  have h: "\<not> has_content (method_reply silent_environment
        (detection_message (method_task_prompt silent_environment) (mu_code run_unit)))"
    by (simp add: silent_environment_def has_content_def)
  have p: "\<forall>xs. mset (as_completed silent_environment xs) = mset xs"
    by (simp add: silent_environment_def)
  note t = no_response_isolated [of silent_environment _ run_unit _ _ method_only_coordinator
      one_method_slice None]
  from t h have det: "MethodDebtDetector_detect (method_task_prompt silent_environment)
      (method_reply silent_environment) run_unit = no_response ''method'' (mu_name run_unit)"
    by blast
  have all: "all_detections silent_environment method_only_coordinator one_method_slice
       = [no_response ''method'' ''run'']"
    using det
    by (simp add: all_detections_def detect_method_debts_def Let_def one_method_slice_def
        method_only_coordinator_def no_response_def run_unit_def)
  from t have tot: "fa_total_detections
        (analyze_file silent_environment method_only_coordinator one_method_slice None)
      = length (all_detections silent_environment method_only_coordinator one_method_slice)"
    by blast
  have debts: "fa_debts (analyze_file silent_environment method_only_coordinator
      one_method_slice None) = []"
    using all by (simp add: analyze_file_def Let_def method_only_coordinator_def no_response_def)
  show ?thesis using h all tot debts by simp
qed

end
